theory Spec2Isabelle
  imports Complex_Main "HOL-Library.Log_Nat"
begin

section \<open>Python values used by \<open>main.py\<close>\<close>

text \<open>
  The endpoints of \<open>main.py\<close> compute with Python \<open>int\<close> (unbounded, modelled as
  \<open>int\<close>) and Python \<open>float\<close> (IEEE 754 binary64).  A float is modelled by its sign
  bit and the exact rational magnitude it denotes, or as an infinity or NaN.  Every
  arithmetic operation computes the exact rational result and rounds it to the nearest
  binary64 value, ties to even, as the hardware does.  An exception that the Python code
  can raise is the \<open>Inl\<close> branch of a sum type.
\<close>

datatype py_exception = OverflowError | ZeroDivisionError | EEException | RequestException

datatype pyfloat = Finite bool rat | Infinity bool | NaN

datatype json = JNull | JInt int | JFloat pyfloat | JStr string | JObj "(string \<times> json) list"

subsection \<open>Rounding to binary64\<close>

definition round_half_even :: "rat \<Rightarrow> int" where
  "round_half_even x =
     (let f = \<lfloor>x\<rfloor>; d = x - of_int f
      in if d < 1 / 2 then f else if 1 / 2 < d then f + 1 else if even f then f else f + 1)"

text \<open>\<open>floor_log b q\<close> is the integer \<open>e\<close> with \<open>b ^ e \<le> q < b ^ (e + 1)\<close>, for \<open>q > 0\<close>.\<close>

definition floor_log :: "nat \<Rightarrow> rat \<Rightarrow> int" where
  "floor_log b q =
     (if 1 \<le> q then int (floorlog b (nat \<lfloor>q\<rfloor>)) - 1
      else - int (floorlog b (nat (\<lceil>1 / q\<rceil> - 1))))"

text \<open>
  Magnitudes from \<open>2 ^ 1024 - 2 ^ 970\<close> on round to a value beyond the largest finite
  binary64 number \<open>2 ^ 1024 - 2 ^ 971\<close>.
\<close>

definition double_overflow :: rat where
  "double_overflow = 2 ^ 1024 - 2 ^ 970"

text \<open>
  The exponent of the unit in the last place: 53 significant bits, and never below the
  subnormal spacing \<open>2 ^ - 1074\<close>.
\<close>

definition double_ulp_exp :: "rat \<Rightarrow> int" where
  "double_ulp_exp q = max (floor_log 2 q - 52) (- 1074)"

definition round_to_double :: "rat \<Rightarrow> rat option" where
  "round_to_double q =
     (if double_overflow \<le> q then None
      else if q = 0 then Some 0
      else let p = double_ulp_exp q
           in Some (of_int (round_half_even (q / 2 powi p)) * 2 powi p))"

text \<open>A model value stands for a Python float when its magnitude is a binary64 number.\<close>

fun is_double :: "pyfloat \<Rightarrow> bool" where
  "is_double (Finite s q) = (0 \<le> q \<and> round_to_double q = Some q)"
| "is_double (Infinity s) = True"
| "is_double NaN = True"

text \<open>A float literal of the source, such as \<open>0.7\<close>: the nearest binary64 number.\<close>

definition float_lit :: "rat \<Rightarrow> pyfloat" where
  "float_lit q = (case round_to_double q of None \<Rightarrow> Infinity False | Some v \<Rightarrow> Finite False v)"

subsection \<open>Arithmetic\<close>

text \<open>\<open>float(n)\<close> for an int, as the mixed operators \<open>int * float\<close> and \<open>float / int\<close> apply it.\<close>

definition py_float_of_int :: "int \<Rightarrow> py_exception + pyfloat" where
  "py_float_of_int n =
     (case round_to_double (of_int \<bar>n\<bar>) of
        None \<Rightarrow> Inl OverflowError
      | Some v \<Rightarrow> Inr (Finite (n < 0) v))"

fun py_float_mul :: "pyfloat \<Rightarrow> pyfloat \<Rightarrow> pyfloat" where
  "py_float_mul NaN y = NaN"
| "py_float_mul x NaN = NaN"
| "py_float_mul (Infinity s) (Infinity t) = Infinity (s \<noteq> t)"
| "py_float_mul (Infinity s) (Finite t q) = (if q = 0 then NaN else Infinity (s \<noteq> t))"
| "py_float_mul (Finite s q) (Infinity t) = (if q = 0 then NaN else Infinity (s \<noteq> t))"
| "py_float_mul (Finite s q) (Finite t r) =
     (case round_to_double (q * r) of
        None \<Rightarrow> Infinity (s \<noteq> t)
      | Some v \<Rightarrow> Finite (s \<noteq> t) v)"

fun is_zero :: "pyfloat \<Rightarrow> bool" where
  "is_zero (Finite s q) = (q = 0)"
| "is_zero x = False"

text \<open>\<open>x / y\<close> on floats: Python raises on a zero divisor before dividing.\<close>

fun ieee_div :: "pyfloat \<Rightarrow> pyfloat \<Rightarrow> pyfloat" where
  "ieee_div NaN y = NaN"
| "ieee_div x NaN = NaN"
| "ieee_div (Infinity s) (Infinity t) = NaN"
| "ieee_div (Infinity s) (Finite t r) = Infinity (s \<noteq> t)"
| "ieee_div (Finite s q) (Infinity t) = Finite (s \<noteq> t) 0"
| "ieee_div (Finite s q) (Finite t r) =
     (case round_to_double (q / r) of
        None \<Rightarrow> Infinity (s \<noteq> t)
      | Some v \<Rightarrow> Finite (s \<noteq> t) v)"

definition py_float_truediv :: "pyfloat \<Rightarrow> pyfloat \<Rightarrow> py_exception + pyfloat" where
  "py_float_truediv x y = (if is_zero y then Inl ZeroDivisionError else Inr (ieee_div x y))"

text \<open>\<open>a / b\<close> on ints: the correctly rounded quotient.\<close>

definition py_int_truediv :: "int \<Rightarrow> int \<Rightarrow> py_exception + pyfloat" where
  "py_int_truediv a b =
     (if b = 0 then Inl ZeroDivisionError
      else case round_to_double (of_int \<bar>a\<bar> / of_int \<bar>b\<bar>) of
             None \<Rightarrow> Inl OverflowError
           | Some v \<Rightarrow> Inr (Finite ((a < 0) \<noteq> (b < 0)) v))"

definition py_mul_int_float :: "int \<Rightarrow> pyfloat \<Rightarrow> py_exception + pyfloat" where
  "py_mul_int_float n x =
     (case py_float_of_int n of Inl e \<Rightarrow> Inl e | Inr f \<Rightarrow> Inr (py_float_mul f x))"

definition py_div_float_int :: "pyfloat \<Rightarrow> int \<Rightarrow> py_exception + pyfloat" where
  "py_div_float_int x n =
     (case py_float_of_int n of Inl e \<Rightarrow> Inl e | Inr f \<Rightarrow> py_float_truediv x f)"

text \<open>
  \<open>round(x, ndigits)\<close> for \<open>ndigits \<ge> 0\<close>: the exact value is rounded half-even to
  \<open>ndigits\<close> decimals, and the decimal is read back as a float; the sign is kept.
  Infinities and NaN round to themselves.
\<close>

fun py_round :: "pyfloat \<Rightarrow> nat \<Rightarrow> py_exception + pyfloat" where
  "py_round (Finite s q) n =
     (if 323 < n then Inr (Finite s q)
      else case round_to_double (of_int (round_half_even (q * 10 ^ n)) / 10 ^ n) of
             None \<Rightarrow> Inl OverflowError
           | Some v \<Rightarrow> Inr (Finite s v))"
| "py_round x n = Inr x"

text \<open>Truth value of a float: only zero (of either sign) is false.\<close>

definition py_bool :: "pyfloat \<Rightarrow> bool" where
  "py_bool x = (\<not> is_zero x)"

subsection \<open>\<open>str\<close> of a float\<close>

fun str_of_nat :: "nat \<Rightarrow> string" where
  "str_of_nat n =
     (if n < 10 then [''0123456789'' ! n]
      else str_of_nat (n div 10) @ [''0123456789'' ! (n mod 10)])"

text \<open>
  The shortest decimal that reads back as the same float, and among the shortest the one
  nearest to it: with \<open>k\<close> significant digits the candidates are the two neighbours of
  \<open>q\<close>.  The result is the digits as a number and the power of ten of its last digit.
  Seventeen digits always suffice.
\<close>

definition digits_candidate :: "nat \<Rightarrow> rat \<Rightarrow> (nat \<times> int) option" where
  "digits_candidate k q =
     (let u = floor_log 10 q - int k + 1;
          lo = \<lfloor>q / 10 powi u\<rfloor>;
          hi = lo + 1;
          lo_ok = (round_to_double (of_int lo * 10 powi u) = Some q);
          hi_ok = (round_to_double (of_int hi * 10 powi u) = Some q);
          d = 2 * (q / 10 powi u - of_int lo)
      in if lo_ok \<and> hi_ok then
           (if d < 1 \<or> (d = 1 \<and> even lo) then Some (nat lo, u) else Some (nat hi, u))
         else if lo_ok then Some (nat lo, u)
         else if hi_ok then Some (nat hi, u)
         else None)"

fun shortest_digits :: "nat \<Rightarrow> nat \<Rightarrow> rat \<Rightarrow> nat \<times> int" where
  "shortest_digits fuel k q =
     (if fuel = 0 then
        (let u = floor_log 10 q - int k + 1 in (nat (round_half_even (q / 10 powi u)), u))
      else case digits_candidate k q of
             Some r \<Rightarrow> r
           | None \<Rightarrow> shortest_digits (fuel - 1) (k + 1) q)"

fun strip_zeros :: "string \<Rightarrow> string" where
  "strip_zeros ds = rev (dropWhile (\<lambda>c. c = CHR ''0'') (rev ds))"

text \<open>
  Python's \<open>repr\<close> layout: \<open>decpt\<close> is the position of the decimal point in the digit
  string; positions in \<open>-3 .. 16\<close> print in fixed notation (with \<open>.0\<close> added to a whole
  number), the others with an exponent of at least two digits.
\<close>

definition format_digits :: "string \<Rightarrow> int \<Rightarrow> string" where
  "format_digits ds decpt =
     (if decpt \<le> - 4 \<or> 16 < decpt then
        (let x = decpt - 1;
             m = (if length ds = 1 then ds else take 1 ds @ ''.'' @ drop 1 ds);
             xs = str_of_nat (nat \<bar>x\<bar>)
         in m @ ''e'' @ (if x < 0 then ''-'' else ''+'') @ (if length xs < 2 then ''0'' @ xs else xs))
      else if decpt \<le> 0 then ''0.'' @ replicate (nat (- decpt)) CHR ''0'' @ ds
      else if int (length ds) \<le> decpt then ds @ replicate (nat decpt - length ds) CHR ''0'' @ ''.0''
      else take (nat decpt) ds @ ''.'' @ drop (nat decpt) ds)"

fun py_str_float :: "pyfloat \<Rightarrow> string" where
  "py_str_float NaN = ''nan''"
| "py_str_float (Infinity s) = (if s then ''-inf'' else ''inf'')"
| "py_str_float (Finite s q) =
     (if s then ''-'' else '''') @
     (if q = 0 then ''0.0''
      else case shortest_digits 16 1 q of
             (n, u) \<Rightarrow> format_digits (strip_zeros (str_of_nat n)) (int (length (str_of_nat n)) + u))"

section \<open>The energy and carbon calculator\<close>

text \<open>
  Module constants of \<open>main.py\<close>.  \<open>CARBON_CREDIT_PER_KG\<close> is the int quotient \<open>1 / 1000\<close>,
  which is the float nearest to one thousandth (lemma \<open>module_constant_quotient\<close>).
\<close>

definition CO2_PER_KWH_KG :: pyfloat where
  "CO2_PER_KWH_KG = float_lit (7 / 10)"

definition CARBON_CREDIT_PER_KG :: pyfloat where
  "CARBON_CREDIT_PER_KG = float_lit (1 / 1000)"

definition TARIFF_MIN :: pyfloat where
  "TARIFF_MIN = float_lit (218 / 1000)"

definition TARIFF_MAX :: pyfloat where
  "TARIFF_MAX = float_lit (571 / 1000)"

record TEGPlanInput =
  num_tegs :: int
  energy_per_module_wh :: pyfloat
  cost_per_module_rm :: pyfloat

text \<open>The local variables of \<open>calculate_teg_plan\<close>, in the order the source computes them.\<close>

definition total_energy_wh :: "TEGPlanInput \<Rightarrow> py_exception + pyfloat" where
  "total_energy_wh data = py_mul_int_float (num_tegs data) (energy_per_module_wh data)"

definition total_energy_kwh :: "pyfloat \<Rightarrow> py_exception + pyfloat" where
  "total_energy_kwh wh = py_div_float_int wh 1000"

definition co2_saved_kg :: "pyfloat \<Rightarrow> pyfloat" where
  "co2_saved_kg kwh = py_float_mul kwh CO2_PER_KWH_KG"

definition carbon_credits :: "pyfloat \<Rightarrow> pyfloat" where
  "carbon_credits co2 = py_float_mul co2 CARBON_CREDIT_PER_KG"

definition min_savings_rm :: "pyfloat \<Rightarrow> pyfloat" where
  "min_savings_rm kwh = py_float_mul kwh TARIFF_MIN"

definition max_savings_rm :: "pyfloat \<Rightarrow> pyfloat" where
  "max_savings_rm kwh = py_float_mul kwh TARIFF_MAX"

text \<open>The returned dict: keys in source order, each rounded as the source rounds it.\<close>

definition teg_plan_result :: "int \<Rightarrow> pyfloat \<Rightarrow> pyfloat \<Rightarrow> py_exception + json" where
  "teg_plan_result n wh kwh =
     (case py_round kwh 3 of Inl e \<Rightarrow> Inl e | Inr r_kwh \<Rightarrow>
      case py_round (co2_saved_kg kwh) 3 of Inl e \<Rightarrow> Inl e | Inr r_co2 \<Rightarrow>
      case py_round (carbon_credits (co2_saved_kg kwh)) 4 of Inl e \<Rightarrow> Inl e | Inr r_cc \<Rightarrow>
      case py_round (min_savings_rm kwh) 2 of Inl e \<Rightarrow> Inl e | Inr r_min \<Rightarrow>
      case py_round (max_savings_rm kwh) 2 of Inl e \<Rightarrow> Inl e | Inr r_max \<Rightarrow>
      Inr (JObj
        [(''Total Energy Generated (Wh/day)'', JFloat wh),
         (''Total Energy (kWh/day)'', JFloat r_kwh),
         (''Number of TEG Modules'', JInt n),
         (''CO2 Saved (kg/day)'', JFloat r_co2),
         (''Carbon Credits Earned per Day'', JFloat r_cc),
         (''Daily Energy Cost Savings (RM Range)'',
            JStr (''RM '' @ py_str_float r_min @ '' - RM '' @ py_str_float r_max))]))"

definition calculate_teg_plan :: "TEGPlanInput \<Rightarrow> py_exception + json" where
  "calculate_teg_plan data =
     (case total_energy_wh data of Inl e \<Rightarrow> Inl e | Inr wh \<Rightarrow>
      case total_energy_kwh wh of Inl e \<Rightarrow> Inl e | Inr kwh \<Rightarrow>
      teg_plan_result (num_tegs data) wh kwh)"


section \<open>Calendar dates, as \<open>datetime\<close> computes them\<close>

text \<open>
  A \<open>datetime\<close> value with its calendar fields (a valid date: month in \<open>1 .. 12\<close>, the
  day within the month; microseconds play no part in the formats used).  Subtracting
  \<open>timedelta(days=200)\<close> goes through the proleptic Gregorian ordinal, where day 1 is
  1 January of year 1, and raises \<open>OverflowError\<close> when it leaves the supported range.
\<close>

record datetime =
  year :: int
  month :: int
  day :: int
  hour :: int
  minute :: int
  second :: int

definition is_leap :: "int \<Rightarrow> bool" where
  "is_leap y = (y mod 4 = 0 \<and> (y mod 100 \<noteq> 0 \<or> y mod 400 = 0))"

definition DAYS_IN_MONTH :: "int list" where
  "DAYS_IN_MONTH = [- 1, 31, 28, 31, 30, 31, 30, 31, 31, 30, 31, 30, 31]"

definition DAYS_BEFORE_MONTH :: "int list" where
  "DAYS_BEFORE_MONTH = [- 1, 0, 31, 59, 90, 120, 151, 181, 212, 243, 273, 304, 334]"

definition days_before_year :: "int \<Rightarrow> int" where
  "days_before_year y = (y - 1) * 365 + (y - 1) div 4 - (y - 1) div 100 + (y - 1) div 400"

definition days_before_month :: "int \<Rightarrow> int \<Rightarrow> int" where
  "days_before_month y m = DAYS_BEFORE_MONTH ! nat m + (if 2 < m \<and> is_leap y then 1 else 0)"

definition ymd2ord :: "int \<Rightarrow> int \<Rightarrow> int \<Rightarrow> int" where
  "ymd2ord y m d = days_before_year y + days_before_month y m + d"

definition ord2ymd :: "int \<Rightarrow> int \<times> int \<times> int" where
  "ord2ymd n0 =
     (let n = n0 - 1;
          n400 = n div 146097; n = n mod 146097;
          n100 = n div 36524; n = n mod 36524;
          n4 = n div 1461; n = n mod 1461;
          n1 = n div 365; n = n mod 365;
          y = n400 * 400 + 1 + n100 * 100 + n4 * 4 + n1
      in if n1 = 4 \<or> n100 = 4 then (y - 1, 12, 31)
         else
           (let leapyear = (n1 = 3 \<and> (n4 \<noteq> 24 \<or> n100 = 3));
                m = (n + 50) div 32;
                preceding = DAYS_BEFORE_MONTH ! nat m + (if 2 < m \<and> leapyear then 1 else 0)
            in if n < preceding then
                 (let m' = m - 1;
                      preceding' = preceding -
                        (DAYS_IN_MONTH ! nat m' + (if m' = 2 \<and> leapyear then 1 else 0))
                  in (y, m', n - preceding' + 1))
               else (y, m, n - preceding + 1)))"

definition MAXORDINAL :: int where
  "MAXORDINAL = 3652059"

definition minus_days :: "datetime \<Rightarrow> int \<Rightarrow> py_exception + datetime" where
  "minus_days t k =
     (let days = ymd2ord (year t) (month t) (day t) - k
      in if 0 < days \<and> days \<le> MAXORDINAL then
           (case ord2ymd days of
              (y, m, d) \<Rightarrow> Inr (t\<lparr>year := y, month := m, day := d\<rparr>))
         else Inl OverflowError)"

definition zero_pad :: "nat \<Rightarrow> int \<Rightarrow> string" where
  "zero_pad w n = (let ds = str_of_nat (nat n) in replicate (w - length ds) CHR ''0'' @ ds)"

text \<open>
  \<open>strftime("%Y-%m-%d")\<close> and \<open>strftime("%Y%m%d%H%M%S")\<close>.  The C library prints the
  year without padding, which is four digits for the years from 1000 on; the other fields
  are padded to two digits.
\<close>

definition strftime_date :: "datetime \<Rightarrow> string" where
  "strftime_date t =
     str_of_nat (nat (year t)) @ ''-'' @ zero_pad 2 (month t) @ ''-'' @ zero_pad 2 (day t)"

definition strftime_stamp :: "datetime \<Rightarrow> string" where
  "strftime_stamp t =
     str_of_nat (nat (year t)) @ zero_pad 2 (month t) @ zero_pad 2 (day t) @
     zero_pad 2 (hour t) @ zero_pad 2 (minute t) @ zero_pad 2 (second t)"


section \<open>The remote services and the file system\<close>

text \<open>
  The Earth Engine client builds a description of a computation; nothing is computed
  until \<open>getInfo\<close> or \<open>getThumbURL\<close> sends the description to the service.  The
  descriptions that \<open>get_lst\<close> builds are the terms of these datatypes, one constructor per
  client method.
\<close>

datatype ee_geometry =
    Point pyfloat pyfloat
  | Buffer ee_geometry int
  | Bounds ee_geometry

datatype ee_collection =
    ImageCollection string
  | FilterBounds ee_collection ee_geometry
  | FilterDate ee_collection string string
  | Select ee_collection string

datatype ee_image =
    Median ee_collection
  | Mean ee_collection
  | Multiply ee_image pyfloat
  | Subtract ee_image pyfloat
  | FocalMean ee_image int string
  | Clip ee_image ee_geometry

record thumb_params =
  region :: ee_geometry
  dimensions :: int
  image_format :: string
  vis_min :: int
  vis_max :: int
  palette :: "string list"

record http_response =
  status_code :: int
  content :: string

text \<open>
  What a run reads from outside: the two clocks, the answers of the Earth Engine service
  (each call may raise), the answer to an HTTP GET, and the API key of the configuration
  (a literal of the source, which the model does not repeat).  \<open>reduceRegion\<close> is always
  called with the mean reducer; its answer maps a band name to a number or to null.
\<close>

record environment =
  utcnow :: datetime
  now :: datetime
  size_getInfo :: "ee_collection \<Rightarrow> py_exception + int"
  getThumbURL :: "ee_image \<Rightarrow> thumb_params \<Rightarrow> py_exception + string"
  reduceRegion_mean :: "ee_image \<Rightarrow> ee_geometry \<Rightarrow> int \<Rightarrow> py_exception + (string \<rightharpoonup> pyfloat option)"
  http_get :: "string \<Rightarrow> py_exception + http_response"
  GOOGLE_MAPS_API_KEY :: string

text \<open>The local file system: the bytes stored under each path.\<close>

type_synonym filesystem = "string \<rightharpoonup> string"

definition SAVE_DIR :: string where
  "SAVE_DIR = ''static/maps''"

definition OUTPUT_DIR :: string where
  "OUTPUT_DIR = ''outputs''"

text \<open>\<open>os.path.join\<close> of a directory and a file name that does not start with a slash.\<close>

definition path_join :: "string \<Rightarrow> string \<Rightarrow> string" where
  "path_join d f = d @ ''/'' @ f"

text \<open>\<open>d.get(key)\<close>: the value, or \<open>None\<close> for a missing key and for a null value alike.\<close>

definition dict_get :: "(string \<rightharpoonup> pyfloat option) \<Rightarrow> string \<Rightarrow> pyfloat option" where
  "dict_get d k = (case d k of None \<Rightarrow> None | Some v \<Rightarrow> v)"

section \<open>The endpoint \<open>get_lst\<close>\<close>

record LocationRequest =
  lat :: pyfloat
  lon :: pyfloat

definition point :: "LocationRequest \<Rightarrow> ee_geometry" where
  "point data = Point (lon data) (lat data)"

definition area :: "LocationRequest \<Rightarrow> ee_geometry" where
  "area data = Bounds (Buffer (point data) 50000)"

definition lst_collection :: "ee_geometry \<Rightarrow> datetime \<Rightarrow> datetime \<Rightarrow> ee_collection" where
  "lst_collection a start_date end_date =
     FilterDate (FilterBounds (ImageCollection ''MODIS/061/MOD11A1'') a)
       (strftime_date start_date) (strftime_date end_date)"

definition raw_lst :: "ee_collection \<Rightarrow> ee_image" where
  "raw_lst c = Median (Select c ''LST_Day_1km'')"

definition lst_image :: "ee_collection \<Rightarrow> ee_geometry \<Rightarrow> ee_image" where
  "lst_image c a =
     Clip (FocalMean (Subtract (Multiply (raw_lst c) (float_lit (2 / 100)))
       (float_lit (27315 / 100))) 1 ''pixels'') a"

definition srad_collection :: "ee_geometry \<Rightarrow> datetime \<Rightarrow> datetime \<Rightarrow> ee_collection" where
  "srad_collection a start_date end_date =
     Select
       (FilterDate (FilterBounds (ImageCollection ''ECMWF/ERA5_LAND/DAILY_AGGR'') a)
          (strftime_date start_date) (strftime_date end_date))
       ''surface_solar_radiation_downwards_sum''"

definition solar_image :: "ee_collection \<Rightarrow> ee_geometry \<Rightarrow> ee_image" where
  "solar_image c a = Clip (Mean c) a"

definition vis_params :: "ee_geometry \<Rightarrow> thumb_params" where
  "vis_params a =
     \<lparr>region = a, dimensions = 512, image_format = ''png'', vis_min = 20, vis_max = 40,
      palette = [''001137'', ''002171'', ''02489d'', ''2c7bb6'', ''abd9e9'',
                 ''ffffbf'', ''fdae61'', ''f46d43'', ''d73027'', ''7f0000'']\<rparr>"

text \<open>The file name: both coordinates rounded to six decimals, and the local time.\<close>

definition lst_filename :: "LocationRequest \<Rightarrow> datetime \<Rightarrow> py_exception + string" where
  "lst_filename data t =
     (case py_round (lat data) 6 of Inl e \<Rightarrow> Inl e | Inr a \<Rightarrow>
      case py_round (lon data) 6 of Inl e \<Rightarrow> Inl e | Inr b \<Rightarrow>
      Inr (''lst_'' @ py_str_float a @ ''_'' @ py_str_float b @ ''_'' @ strftime_stamp t @ ''.png''))"

text \<open>
  The two scalars of the response: \<open>round(v, 2) if v else None\<close> for the temperature, and
  the same after the division by \<open>1_000_000\<close> for the radiation.
\<close>

definition lst_field :: "pyfloat option \<Rightarrow> py_exception + json" where
  "lst_field lst_celsius =
     (case lst_celsius of
        None \<Rightarrow> Inr JNull
      | Some v \<Rightarrow>
          if py_bool v then
            (case py_round v 2 of Inl e \<Rightarrow> Inl e | Inr r \<Rightarrow> Inr (JFloat r))
          else Inr JNull)"

definition solar_field :: "pyfloat option \<Rightarrow> py_exception + json" where
  "solar_field solar_radiation =
     (case solar_radiation of
        None \<Rightarrow> Inr JNull
      | Some v \<Rightarrow>
          if py_bool v then
            (case py_div_float_int v 1000000 of Inl e \<Rightarrow> Inl e | Inr w \<Rightarrow>
             case py_round w 2 of Inl e \<Rightarrow> Inl e | Inr r \<Rightarrow> Inr (JFloat r))
          else Inr JNull)"

text \<open>
  The last step of \<open>get_lst\<close>: on status 200 the bytes are written first and the response
  is built after; on any other status nothing is written.
\<close>

definition lst_download ::
  "http_response \<Rightarrow> string \<Rightarrow> string \<Rightarrow> pyfloat option \<Rightarrow> pyfloat option \<Rightarrow> filesystem \<Rightarrow>
     (py_exception + json) \<times> filesystem" where
  "lst_download response path url lst_celsius solar_radiation fs =
     (if status_code response = 200 then
        (let fs' = fs(path \<mapsto> content response)
         in case lst_field lst_celsius of Inl e \<Rightarrow> (Inl e, fs') | Inr l \<Rightarrow>
            case solar_field solar_radiation of Inl e \<Rightarrow> (Inl e, fs') | Inr r \<Rightarrow>
            (Inr (JObj
               [(''message'', JStr ''LST image saved.''),
                (''path'', JStr path),
                (''url'', JStr url),
                (''lst'', l),
                (''solar_radiation'', r)]), fs'))
      else
        (Inr (JObj
           [(''error'', JStr ''Failed to fetch image''),
            (''status'', JInt (status_code response))]), fs))"

text \<open>
  The part of \<open>get_lst\<close> after the emptiness check: the two rasters, the file name, the
  thumbnail URL, the two samples at the point, and the download.
\<close>

definition lst_fetch ::
  "environment \<Rightarrow> LocationRequest \<Rightarrow> datetime \<Rightarrow> datetime \<Rightarrow> filesystem \<Rightarrow>
     (py_exception + json) \<times> filesystem" where
  "lst_fetch env data start_date end_date fs =
     (let img = lst_image (lst_collection (area data) start_date end_date) (area data);
          sol = solar_image (srad_collection (area data) start_date end_date) (area data)
      in case lst_filename data (now env) of Inl e \<Rightarrow> (Inl e, fs) | Inr filename \<Rightarrow>
         case getThumbURL env img (vis_params (area data)) of Inl e \<Rightarrow> (Inl e, fs) | Inr url \<Rightarrow>
         case reduceRegion_mean env img (point data) 1000 of Inl e \<Rightarrow> (Inl e, fs) | Inr lst_value \<Rightarrow>
         case reduceRegion_mean env sol (point data) 1000 of Inl e \<Rightarrow> (Inl e, fs) | Inr srad_value \<Rightarrow>
         case http_get env url of Inl e \<Rightarrow> (Inl e, fs) | Inr response \<Rightarrow>
         lst_download response (path_join OUTPUT_DIR filename) url
           (dict_get lst_value ''LST_Day_1km'')
           (dict_get srad_value ''surface_solar_radiation_downwards_sum'') fs)"

definition get_lst ::
  "environment \<Rightarrow> LocationRequest \<Rightarrow> filesystem \<Rightarrow> (py_exception + json) \<times> filesystem" where
  "get_lst env data fs =
     (let end_date = utcnow env
      in case minus_days end_date 200 of Inl e \<Rightarrow> (Inl e, fs) | Inr start_date \<Rightarrow>
         case size_getInfo env (lst_collection (area data) start_date end_date) of
           Inl e \<Rightarrow> (Inl e, fs)
         | Inr n \<Rightarrow>
             if n = 0 then
               (Inr (JObj
                  [(''error'', JStr ''No valid LST data available for this location/date range.'')]),
                fs)
             else lst_fetch env data start_date end_date fs)"

section \<open>The map image endpoints\<close>

text \<open>
  The request model \<open>Location\<close> has the fields \<open>lat\<close> and \<open>lng\<close>; they are named
  \<open>loc_lat\<close> and \<open>loc_lng\<close> here, apart from the fields of \<open>LocationRequest\<close>.
\<close>

record Location =
  loc_lat :: pyfloat
  loc_lng :: pyfloat

text \<open>\<open>s.replace('.', '_')\<close>.\<close>

definition replace_dot :: "string \<Rightarrow> string" where
  "replace_dot s = map (\<lambda>c. if c = CHR ''.'' then CHR ''_'' else c) s"

definition street_view_url :: "environment \<Rightarrow> Location \<Rightarrow> string" where
  "street_view_url env loc =
     ''https://maps.googleapis.com/maps/api/streetview'' @
     ''?size=600x400'' @
     ''&location='' @ py_str_float (loc_lat loc) @ '','' @ py_str_float (loc_lng loc) @
     ''&heading=90&pitch=0'' @
     ''&key='' @ GOOGLE_MAPS_API_KEY env"

definition street_view_filename :: "Location \<Rightarrow> string" where
  "street_view_filename loc =
     ''streetview_'' @ replace_dot (py_str_float (loc_lat loc)) @ ''_'' @
     replace_dot (py_str_float (loc_lng loc)) @ ''.jpg''"

definition get_street_view ::
  "environment \<Rightarrow> Location \<Rightarrow> filesystem \<Rightarrow> (py_exception + json) \<times> filesystem" where
  "get_street_view env loc fs =
     (case http_get env (street_view_url env loc) of Inl e \<Rightarrow> (Inl e, fs) | Inr response \<Rightarrow>
      if status_code response \<noteq> 200 then
        (Inr (JObj [(''error'', JStr ''Could not fetch Street View image'')]), fs)
      else
        (let filepath = path_join SAVE_DIR (street_view_filename loc)
         in (Inr (JObj
               [(''message'', JStr ''Street View image saved''),
                (''file_path'', JStr filepath)]),
             fs(filepath \<mapsto> content response))))"

definition hybrid_url :: "environment \<Rightarrow> Location \<Rightarrow> string" where
  "hybrid_url env loc =
     ''https://maps.googleapis.com/maps/api/staticmap'' @
     ''?center='' @ py_str_float (loc_lat loc) @ '','' @ py_str_float (loc_lng loc) @
     ''&zoom=18'' @
     ''&size=640x640'' @
     ''&scale=2'' @
     ''&maptype=hybrid'' @
     ''&markers=color:red%7Clabel:%7C'' @ py_str_float (loc_lat loc) @ '','' @
       py_str_float (loc_lng loc) @
     ''&key='' @ GOOGLE_MAPS_API_KEY env"

definition hybrid_map_filename :: "Location \<Rightarrow> string" where
  "hybrid_map_filename loc =
     ''hybridmap_'' @ replace_dot (py_str_float (loc_lat loc)) @ ''_'' @
     replace_dot (py_str_float (loc_lng loc)) @ ''.jpg''"

definition get_hybrid_map ::
  "environment \<Rightarrow> Location \<Rightarrow> filesystem \<Rightarrow> (py_exception + json) \<times> filesystem" where
  "get_hybrid_map env loc fs =
     (case http_get env (hybrid_url env loc) of Inl e \<Rightarrow> (Inl e, fs) | Inr response \<Rightarrow>
      if status_code response \<noteq> 200 then
        (Inr (JObj [(''error'', JStr ''Could not fetch satellite image'')]), fs)
      else
        (let filepath = path_join SAVE_DIR (hybrid_map_filename loc)
         in (Inr (JObj
               [(''message'', JStr ''Hybrid satellite image saved''),
                (''file_path'', JStr filepath)]),
             fs(filepath \<mapsto> content response))))"


section \<open>Notions used in the statements\<close>

text \<open>
  The steps of a raster description in the order the service applies them, innermost
  first, and the collection the description starts from.
\<close>

datatype raster_step =
    StepMedian
  | StepMean
  | StepMultiply pyfloat
  | StepSubtract pyfloat
  | StepFocalMean int string
  | StepClip ee_geometry

fun image_steps :: "ee_image \<Rightarrow> raster_step list" where
  "image_steps (Median c) = [StepMedian]"
| "image_steps (Mean c) = [StepMean]"
| "image_steps (Multiply i x) = image_steps i @ [StepMultiply x]"
| "image_steps (Subtract i x) = image_steps i @ [StepSubtract x]"
| "image_steps (FocalMean i r u) = image_steps i @ [StepFocalMean r u]"
| "image_steps (Clip i g) = image_steps i @ [StepClip g]"

fun image_source :: "ee_image \<Rightarrow> ee_collection" where
  "image_source (Median c) = c"
| "image_source (Mean c) = c"
| "image_source (Multiply i x) = image_source i"
| "image_source (Subtract i x) = image_source i"
| "image_source (FocalMean i r u) = image_source i"
| "image_source (Clip i g) = image_source i"

text \<open>A sample of the service is a float, when it is present.\<close>

definition sample_ok :: "pyfloat option \<Rightarrow> bool" where
  "sample_ok v = (case v of None \<Rightarrow> True | Some x \<Rightarrow> is_double x)"

text \<open>
  A run of \<open>get_lst\<close> reaches the download of the thumbnail: the time window exists, the
  temperature collection is not empty, no call of the service raises, and the HTTP GET
  returns \<open>response\<close>.  The parameters name what the run has read by then.
\<close>

definition reaches_download ::
  "environment \<Rightarrow> LocationRequest \<Rightarrow> datetime \<Rightarrow> string \<Rightarrow> (string \<rightharpoonup> pyfloat option) \<Rightarrow>
     (string \<rightharpoonup> pyfloat option) \<Rightarrow> http_response \<Rightarrow> bool" where
  "reaches_download env data start_date url lst_value srad_value response =
     (minus_days (utcnow env) 200 = Inr start_date \<and>
      (case size_getInfo env (lst_collection (area data) start_date (utcnow env)) of
         Inl e \<Rightarrow> False
       | Inr n \<Rightarrow> n \<noteq> 0) \<and>
      is_double (lat data) \<and> is_double (lon data) \<and>
      getThumbURL env
        (lst_image (lst_collection (area data) start_date (utcnow env)) (area data))
        (vis_params (area data)) = Inr url \<and>
      reduceRegion_mean env
        (lst_image (lst_collection (area data) start_date (utcnow env)) (area data))
        (point data) 1000 = Inr lst_value \<and>
      reduceRegion_mean env
        (solar_image (srad_collection (area data) start_date (utcnow env)) (area data))
        (point data) 1000 = Inr srad_value \<and>
      sample_ok (dict_get lst_value ''LST_Day_1km'') \<and>
      sample_ok (dict_get srad_value ''surface_solar_radiation_downwards_sum'') \<and>
      http_get env url = Inr response)"

text \<open>The HTTP GET of \<open>url\<close> returns \<open>response\<close>, with status 200.\<close>

definition fetched :: "environment \<Rightarrow> string \<Rightarrow> http_response \<Rightarrow> bool" where
  "fetched env url response = (http_get env url = Inr response \<and> status_code response = 200)"

text \<open>The value under a key of the JSON object that an endpoint returns, if it returns one.\<close>

fun response_field :: "(py_exception + json) \<times> filesystem \<Rightarrow> string \<Rightarrow> json option" where
  "response_field (Inr (JObj kvs), fs) k = map_of kvs k"
| "response_field r k = None"

text \<open>Python's truth test on a sample: \<open>None\<close> and zero are false.\<close>

definition falsy :: "pyfloat option \<Rightarrow> bool" where
  "falsy v = (case v of None \<Rightarrow> True | Some x \<Rightarrow> \<not> py_bool x)"

text \<open>A finite float whose value lies between two bounds.\<close>

fun float_between :: "rat \<Rightarrow> rat \<Rightarrow> pyfloat \<Rightarrow> bool" where
  "float_between lo hi (Finite s q) =
     (lo \<le> (if s then - q else q) \<and> (if s then - q else q) \<le> hi)"
| "float_between lo hi x = False"

fun float_nonneg :: "pyfloat \<Rightarrow> bool" where
  "float_nonneg (Finite s q) = (0 \<le> (if s then - q else q))"
| "float_nonneg x = False"

text \<open>
  The magnitudes that rounding to binary64 produces: below the overflow bound, and a whole
  number from \<open>2 ^ 52\<close> on.
\<close>

fun rounded :: "pyfloat \<Rightarrow> bool" where
  "rounded (Finite s v) = (v < double_overflow \<and> (of_int \<lfloor>v\<rfloor> = v \<or> v \<le> 2 ^ 52))"
| "rounded x = True"

text \<open>
  The reading of the credits formula as a division, \<open>co2_saved_kg / 1000\<close>, next to the
  product with \<open>CARBON_CREDIT_PER_KG\<close> that the source computes.
\<close>

definition carbon_credits_by_division :: "pyfloat \<Rightarrow> py_exception + pyfloat" where
  "carbon_credits_by_division co2 = py_div_float_int co2 1000"

definition credits_field_by_division :: "pyfloat \<Rightarrow> py_exception + pyfloat" where
  "credits_field_by_division co2 =
     (case carbon_credits_by_division co2 of Inl e \<Rightarrow> Inl e | Inr c \<Rightarrow> py_round c 4)"

text \<open>
  The calendar fields of a \<open>datetime\<close> are within the ranges that the class admits (the
  day is at most 31 in every month).
\<close>

definition valid_stamp_time :: "datetime \<Rightarrow> bool" where
  "valid_stamp_time t =
     (1 \<le> year t \<and> year t \<le> 9999 \<and> 1 \<le> month t \<and> month t \<le> 12 \<and>
      1 \<le> day t \<and> day t \<le> 31 \<and> 0 \<le> hour t \<and> hour t \<le> 23 \<and>
      0 \<le> minute t \<and> minute t \<le> 59 \<and> 0 \<le> second t \<and> second t \<le> 59)"

subsection \<open>A concrete run\<close>

text \<open>
  A request for a point in Kuala Lumpur on 4 November 2026, and an environment whose
  service reports \<open>n\<close> images in every collection, samples \<open>lv\<close> for the temperature
  raster and \<open>sv\<close> for the radiation raster, and answers the download with status \<open>st\<close>.
\<close>

definition example_request :: LocationRequest where
  "example_request = \<lparr>lat = float_lit (3139 / 1000), lon = float_lit (1016869 / 10000)\<rparr>"

definition example_url :: string where
  "example_url = ''https://earthengine.googleapis.com/v1/thumbnails/0a1b:getPixels''"

definition example_env :: "int \<Rightarrow> pyfloat option \<Rightarrow> pyfloat option \<Rightarrow> int \<Rightarrow> environment" where
  "example_env n lv sv st =
     \<lparr>utcnow = \<lparr>year = 2026, month = 11, day = 4, hour = 7, minute = 5, second = 9\<rparr>,
      now = \<lparr>year = 2026, month = 11, day = 4, hour = 15, minute = 5, second = 9\<rparr>,
      size_getInfo = (\<lambda>c. Inr n),
      getThumbURL = (\<lambda>img ps. Inr example_url),
      reduceRegion_mean = (\<lambda>img g sc.
        case img of
          Clip (Mean c) a \<Rightarrow> Inr [''surface_solar_radiation_downwards_sum'' \<mapsto> sv]
        | _ \<Rightarrow> Inr [''LST_Day_1km'' \<mapsto> lv]),
      http_get = (\<lambda>u. Inr \<lparr>status_code = st, content = ''PNG''\<rparr>),
      GOOGLE_MAPS_API_KEY = ''KEY''\<rparr>"

text \<open>The same environment with other bytes behind every URL.\<close>

definition example_env2 :: environment where
  "example_env2 =
     (example_env 181 None None 200)
       \<lparr>http_get := (\<lambda>u. Inr \<lparr>status_code = 200, content = ''JPEG''\<rparr>)\<rparr>"

definition example_start :: datetime where
  "example_start = \<lparr>year = 2026, month = 4, day = 18, hour = 7, minute = 5, second = 9\<rparr>"

definition example_path :: string where
  "example_path = ''outputs/lst_3.139_101.6869_20261104150509.png''"

definition example_plan :: TEGPlanInput where
  "example_plan =
     \<lparr>num_tegs = 100, energy_per_module_wh = float_lit 5, cost_per_module_rm = float_lit 2\<rparr>"

definition example_location :: Location where
  "example_location = \<lparr>loc_lat = float_lit (3139 / 1000), loc_lng = float_lit (1016869 / 10000)\<rparr>"


text \<open>
  Service answers that are defined for the two rasters of the example request only, and
  raise for every other description: the thumbnail, the samples (31.4159 degrees for the
  temperature raster and 15000000 joules per square metre for the radiation raster), and
  the environment that answers with them.
\<close>

definition example_thumb :: "ee_image \<Rightarrow> thumb_params \<Rightarrow> py_exception + string" where
  "example_thumb img ps =
     (if img = lst_image
          (lst_collection (area example_request) example_start
             (utcnow (example_env 181 None None 200)))
          (area example_request)
      then Inr example_url else Inl EEException)"

definition example_sample ::
  "ee_image \<Rightarrow> ee_geometry \<Rightarrow> int \<Rightarrow> py_exception + (string \<rightharpoonup> pyfloat option)" where
  "example_sample img g sc =
     (if img = lst_image
          (lst_collection (area example_request) example_start
             (utcnow (example_env 181 None None 200)))
          (area example_request)
      then Inr [''LST_Day_1km'' \<mapsto> Some (float_lit (314159 / 10000))]
      else if img = solar_image
          (srad_collection (area example_request) example_start
             (utcnow (example_env 181 None None 200)))
          (area example_request)
      then Inr [''surface_solar_radiation_downwards_sum'' \<mapsto> Some (float_lit 15000000)]
      else Inl EEException)"

definition example_strict_env :: environment where
  "example_strict_env =
     (example_env 181 (Some (float_lit (314159 / 10000))) (Some (float_lit 15000000)) 200)
       \<lparr>getThumbURL := example_thumb, reduceRegion_mean := example_sample\<rparr>"

text \<open>
  A size answer that reports 181 images for the temperature collection of the example
  request and no image for every other collection.
\<close>

definition example_size :: "ee_collection \<Rightarrow> py_exception + int" where
  "example_size c =
     (if c = lst_collection (area example_request) example_start
               (utcnow (example_env 181 None None 200))
      then Inr 181 else Inr 0)"

text \<open>The environment of the example one second later on the local clock.\<close>

definition example_env_later :: environment where
  "example_env_later =
     (example_env 181 None None 200)
       \<lparr>now := \<lparr>year = 2026, month = 11, day = 4, hour = 15, minute = 5, second = 10\<rparr>\<rparr>"

section \<open>Lemmas\<close>

subsection \<open>Evaluation of concrete values\<close>

lemma floor_rat_numeral_div: "\<lfloor>numeral a / numeral b :: rat\<rfloor> = numeral a div numeral b"
  by (metis floor_divide_of_int_eq of_int_numeral)

lemma ceiling_rat_numeral_div:
  "\<lceil>numeral a / numeral b :: rat\<rceil> = - (- numeral a div numeral b)"
  by (metis ceiling_divide_eq_div of_int_numeral)

lemma floorlog_step: "0 < x \<Longrightarrow> 1 < b \<Longrightarrow> floorlog b x = floorlog b (x div b) + 1"
  by (subst compute_floorlog) simp

lemma floorlog_zero: "floorlog b 0 = 0"
  by (simp add: floorlog_def)

lemmas round_eval =
  round_to_double_def double_overflow_def double_ulp_exp_def floor_log_def
  round_half_even_def Let_def floorlog_step floorlog_zero floor_rat_numeral_div
  ceiling_rat_numeral_div

lemmas float_eval =
  round_eval float_lit_def py_float_of_int_def py_float_truediv_def py_int_truediv_def
  py_mul_int_float_def py_div_float_int_def py_bool_def digits_candidate_def
  format_digits_def

subsection \<open>Properties of rounding\<close>

declare rounded.simps [simp del]


lemma rhe_cases: "round_half_even x = \<lfloor>x\<rfloor> \<or> round_half_even x = \<lfloor>x\<rfloor> + 1 \<and> 1 / 2 \<le> x - of_int \<lfloor>x\<rfloor>"
  by (auto simp: round_half_even_def Let_def)

lemma rhe_le: "x \<le> of_int N \<Longrightarrow> round_half_even x \<le> N"
proof -
  assume a: "x \<le> of_int N"
  show ?thesis
  proof (cases "x = of_int N")
    case True
    then show ?thesis by (simp add: round_half_even_def)
  next
    case False
    with a have "x < of_int N" by simp
    then have "\<lfloor>x\<rfloor> < N" by (simp add: floor_less_iff)
    with rhe_cases[of x] show ?thesis by linarith
  qed
qed

lemma rhe_ge: "of_int N \<le> x \<Longrightarrow> N \<le> round_half_even x"
proof -
  assume "of_int N \<le> x"
  then have "N \<le> \<lfloor>x\<rfloor>" by (simp add: le_floor_iff)
  with rhe_cases[of x] show ?thesis by linarith
qed

lemma rhe_of_int: "round_half_even (of_int k) = k"
  by (simp add: round_half_even_def)

lemma rhe_lt_half: "x < of_int N + 1 / 2 \<Longrightarrow> round_half_even x \<le> N"
proof -
  assume a: "x < of_int N + 1 / 2"
  have "\<lfloor>x\<rfloor> \<le> N" using a by (simp add: floor_le_iff) 
  moreover have "\<lfloor>x\<rfloor> = N \<Longrightarrow> x - of_int \<lfloor>x\<rfloor> < 1 / 2" using a by simp
  ultimately show ?thesis using rhe_cases[of x] by (cases "\<lfloor>x\<rfloor> = N") auto
qed

lemma floor_log_bounds:
  assumes "0 < q"
  shows "2 powi (floor_log 2 q) \<le> q" and "q < 2 powi (floor_log 2 q + 1)"
proof -
  show "2 powi (floor_log 2 q) \<le> q"
  proof (cases "1 \<le> q")
    case True
    define n where "n = nat \<lfloor>q\<rfloor>"
    have n: "0 < n" "of_nat n \<le> q" using True by (auto simp: n_def le_floor_iff)
    have "2 ^ (floorlog 2 n - 1) \<le> n" using floorlog_bounds[of n 2] n by simp
    then have "(2::rat) ^ (floorlog 2 n - 1) \<le> of_nat n"
      by (metis of_nat_le_iff of_nat_numeral of_nat_power)
    then have "(2::rat) ^ (floorlog 2 n - 1) \<le> q" using n(2) by (rule order_trans)
    moreover have "0 < floorlog 2 n" using n by (simp add: floorlog_def)
    ultimately show ?thesis using True
      by (simp add: floor_log_def n_def[symmetric] power_int_def of_nat_diff nat_diff_distrib Suc_le_eq)
  next
    case False
    define c where "c = nat (\<lceil>1 / q\<rceil> - 1)"
    have q1: "1 < 1 / q" using False assms by simp
    then have c2: "2 \<le> \<lceil>1 / q\<rceil>" by (simp add: le_ceiling_iff) 
    have cpos: "0 < c" using c2 by (simp add: c_def)
    have "c < 2 ^ floorlog 2 c" using floorlog_bounds[of c 2] cpos by simp
    then have "\<lceil>1 / q\<rceil> \<le> 2 ^ floorlog 2 c" using c2 by (simp add: c_def) 
    then have "1 / q \<le> 2 ^ floorlog 2 c"
      by (metis ceiling_le_iff of_int_numeral of_int_power)
    then have "1 / 2 ^ floorlog 2 c \<le> q" using assms
      by (simp add: field_simps)
    moreover have "(2::rat) powi (- int (floorlog 2 c)) = 1 / 2 ^ floorlog 2 c"
      by (simp add: power_int_minus_divide)
    ultimately show ?thesis using False
      by (simp add: floor_log_def c_def[symmetric])
  qed
  show "q < 2 powi (floor_log 2 q + 1)"
  proof (cases "1 \<le> q")
    case True
    define n where "n = nat \<lfloor>q\<rfloor>"
    have n: "0 < n" using True by (auto simp: n_def le_floor_iff)
    have qn: "q < of_nat n + 1" using True by (simp add: n_def) linarith
    have "n < 2 ^ floorlog 2 n" using floorlog_bounds[of n 2] n by simp
    then have "n + 1 \<le> 2 ^ floorlog 2 n" by simp
    then have "(of_nat (n + 1) :: rat) \<le> of_nat (2 ^ floorlog 2 n)"
      by (simp only: of_nat_le_iff)
    then have "q < 2 ^ floorlog 2 n" using qn by simp
    then show ?thesis using True
      by (simp add: floor_log_def n_def[symmetric] power_int_def)
  next
    case False
    define c where "c = nat (\<lceil>1 / q\<rceil> - 1)"
    have q1: "1 < 1 / q" using False assms by simp
    then have c2: "2 \<le> \<lceil>1 / q\<rceil>" by (simp add: le_ceiling_iff) 
    have cpos: "0 < c" using c2 by (simp add: c_def)
    have clt: "of_nat c < 1 / q" using c2 by (simp add: c_def) linarith
    have L: "0 < floorlog 2 c" using cpos by (simp add: floorlog_def)
    have "2 ^ (floorlog 2 c - 1) \<le> c" using floorlog_bounds[of c 2] cpos by simp
    then have "(2::rat) ^ (floorlog 2 c - 1) \<le> of_nat c"
      by (metis of_nat_le_iff of_nat_numeral of_nat_power)
    then have "(2::rat) ^ (floorlog 2 c - 1) < 1 / q" using clt by (rule le_less_trans)
    then have "q < 1 / 2 ^ (floorlog 2 c - 1)" using assms
      by (simp add: field_simps)
    moreover have "(2::rat) powi (- int (floorlog 2 c) + 1) = 1 / 2 ^ (floorlog 2 c - 1)"
    proof -
      have "- int (floorlog 2 c) + 1 = - int (floorlog 2 c - 1)" using L by simp
      then show ?thesis by (simp only: power_int_minus_divide power_int_of_nat)
    qed
    ultimately show ?thesis using False
      by (simp add: floor_log_def c_def[symmetric])
  qed
qed


lemma pow2_mono: "a \<le> b \<Longrightarrow> (2::rat) powi a \<le> 2 powi b"
  by (rule power_int_increasing) simp_all

lemma pow2_nat: "0 \<le> k \<Longrightarrow> (2::rat) powi k = of_int (2 ^ nat k)"
  by (simp add: power_int_def)

lemma scaled_lt:
  assumes "q < 2 powi k"
  shows "q / 2 powi p < (2::rat) powi (k - p)"
proof -
  have "q / 2 powi p < 2 powi k / 2 powi p"
    using assms by (simp add: divide_strict_right_mono)
  then show ?thesis by (simp add: power_int_diff)
qed

lemma double_overflow_lt: "double_overflow < 2 powi 1024"
  by (simp add: double_overflow_def)

lemma ulp_facts:
  assumes "0 < q" "q < double_overflow"
  shows "double_ulp_exp q \<le> 971" and "- 1074 \<le> double_ulp_exp q"
    and "q < 2 powi (double_ulp_exp q + 53)"
proof -
  define e where "e = floor_log 2 q"
  have lo: "2 powi e \<le> q" and hi: "q < 2 powi (e + 1)"
    using floor_log_bounds[OF assms(1)] by (simp_all add: e_def)
  have "e < 1024"
  proof (rule ccontr)
    assume "\<not> e < 1024"
    then have "(2::rat) powi 1024 \<le> 2 powi e" by (intro pow2_mono) simp
    with lo assms(2) double_overflow_lt show False by linarith
  qed
  then show "double_ulp_exp q \<le> 971" by (simp add: double_ulp_exp_def e_def[symmetric])
  show "- 1074 \<le> double_ulp_exp q" by (simp add: double_ulp_exp_def)
  have "e + 1 \<le> double_ulp_exp q + 53" by (simp add: double_ulp_exp_def e_def[symmetric])
  then have "(2::rat) powi (e + 1) \<le> 2 powi (double_ulp_exp q + 53)" by (rule pow2_mono)
  with hi show "q < 2 powi (double_ulp_exp q + 53)" by simp
qed

lemma round_to_double_pos:
  assumes "q \<noteq> 0" "round_to_double q = Some v"
  shows "q < double_overflow"
    and "v = of_int (round_half_even (q / 2 powi double_ulp_exp q)) * 2 powi double_ulp_exp q"
  using assms by (auto simp: round_to_double_def Let_def split: if_splits)

lemma round_to_double_out:
  assumes "0 \<le> q" "round_to_double q = Some v"
  shows "0 \<le> v \<and> v < double_overflow \<and> (of_int \<lfloor>v\<rfloor> = v \<or> v \<le> 2 ^ 52)"
proof -
  have T0: "0 < double_overflow" by (simp add: double_overflow_def)
  show ?thesis
  proof (cases "q = 0")
    case True
    then have "v = 0" using assms(2) T0 by (simp add: round_to_double_def)
    then show ?thesis using T0 by simp
  next
    case False
    then have qpos: "0 < q" using assms(1) by simp
    define p where "p = double_ulp_exp q"
    define m where "m = round_half_even (q / 2 powi p)"
    have qT: "q < double_overflow" and v: "v = of_int m * 2 powi p"
      using round_to_double_pos[OF False assms(2)] by (simp_all add: p_def m_def)
    have p971: "p \<le> 971" and p1074: "- 1074 \<le> p" and qp: "q < 2 powi (p + 53)"
      using ulp_facts[OF qpos qT] by (simp_all add: p_def)
    have pp: "0 < (2::rat) powi p" by simp
    have "0 \<le> q / 2 powi p" using qpos by simp
    then have m0: "0 \<le> m" unfolding m_def using rhe_ge[of 0] by simp
    have A: "0 \<le> v" using m0 by (simp add: v)
    have "q / 2 powi p < 2 powi (p + 53 - p)" using qp by (rule scaled_lt)
    then have "q / 2 powi p \<le> of_int (2 ^ 53)" by simp
    then have m53: "m \<le> 2 ^ 53" unfolding m_def by (rule rhe_le)
    have B: "v < double_overflow"
    proof (cases "p = 971")
      case True
      have "q / 2 powi p < double_overflow / 2 powi p"
        using qT by (simp add: divide_strict_right_mono)
      also have "double_overflow / 2 powi p = of_int (2 ^ 53 - 1) + 1 / 2"
        by (simp add: True double_overflow_def)
      finally have "m \<le> 2 ^ 53 - 1" unfolding m_def by (rule rhe_lt_half)
      then have "(of_int m :: rat) \<le> of_int (2 ^ 53 - 1)" by (simp only: of_int_le_iff)
      then have "v \<le> of_int (2 ^ 53 - 1) * 2 powi 971"
        unfolding v True by (rule mult_right_mono) simp
      also have "\<dots> < double_overflow" by (simp add: double_overflow_def)
      finally show ?thesis .
    next
      case False
      then have "p \<le> 970" using p971 by simp
      then have "(2::rat) powi p \<le> 2 powi 970" by (rule pow2_mono)
      moreover have "(of_int m :: rat) \<le> of_int (2 ^ 53)" using m53 by (simp only: of_int_le_iff)
      ultimately have "of_int m * 2 powi p \<le> (of_int (2 ^ 53) :: rat) * 2 powi 970"
        using m0 by (intro mult_mono) simp_all
      also have "\<dots> < double_overflow" by (simp add: double_overflow_def)
      finally show ?thesis by (simp add: v)
    qed
    have C: "of_int \<lfloor>v\<rfloor> = v \<or> v \<le> 2 ^ 52"
    proof (cases "0 \<le> p")
      case True
      then have "v = of_int (m * 2 ^ nat p)" by (simp add: v pow2_nat)
      then show ?thesis by simp
    next
      case False
      then have pneg: "p < 0" by simp
      have "(2::rat) powi (p + 53) \<le> 2 powi 52" using pneg by (intro pow2_mono) simp
      with qp have "q < 2 powi 52" by simp
      then have "q / 2 powi p < 2 powi (52 - p)" by (rule scaled_lt)
      also have "(2::rat) powi (52 - p) = of_int (2 ^ nat (52 - p))"
        using pneg by (intro pow2_nat) simp
      finally have "m \<le> 2 ^ nat (52 - p)" unfolding m_def using rhe_le by simp
      then have "(of_int m :: rat) \<le> of_int (2 ^ nat (52 - p))" by (simp only: of_int_le_iff)
      also have "(of_int (2 ^ nat (52 - p)) :: rat) = 2 powi (52 - p)"
        using pneg by (intro pow2_nat[symmetric]) simp
      finally have "of_int m * 2 powi p \<le> (2::rat) powi (52 - p) * 2 powi p"
        by (rule mult_right_mono) simp
      also have "(2::rat) powi (52 - p) * 2 powi p = 2 powi 52"
        by (simp add: power_int_add[symmetric])
      finally show ?thesis by (simp add: v)
    qed
    show ?thesis using A B C by simp
  qed
qed


lemma round_to_double_neg:
  assumes "q < 0" "round_to_double q = Some v"
  shows "v \<le> 0"
proof -
  have q0: "q \<noteq> 0" using assms(1) by simp
  define p where "p = double_ulp_exp q"
  have v: "v = of_int (round_half_even (q / 2 powi p)) * 2 powi p"
    using round_to_double_pos(2)[OF q0 assms(2)] by (simp add: p_def)
  have "q / 2 powi p \<le> of_int 0" using assms(1) by (simp add: divide_le_0_iff)
  then have "round_half_even (q / 2 powi p) \<le> 0" by (rule rhe_le)
  then show ?thesis by (simp add: v mult_le_0_iff)
qed

lemma double_overflow_big: "2 ^ 52 < double_overflow"
  by (simp add: double_overflow_def)

lemma round_to_double_rounded:
  assumes "round_to_double q = Some v"
  shows "rounded (Finite s v)"
proof (cases "q < 0")
  case True
  then have "v \<le> 0" using assms by (rule round_to_double_neg)
  then show ?thesis using double_overflow_big by (simp add: rounded.simps)
next
  case False
  then have "0 \<le> q" by simp
  then show ?thesis using round_to_double_out[OF _ assms] by (simp add: rounded.simps)
qed

lemma round_to_double_Some: "q < double_overflow \<Longrightarrow> \<exists>v. round_to_double q = Some v"
  by (simp add: round_to_double_def Let_def)

lemma rounded_zero: "rounded (Finite s 0)"
  using double_overflow_big by (simp add: rounded.simps)

lemma rounded_special: "rounded (Infinity s)" "rounded NaN"
  by (simp_all add: rounded.simps)

lemma rounded_mul: "rounded (py_float_mul x y)"
  by (cases x; cases y) (simp_all add: round_to_double_rounded rounded_special split: option.splits)

lemma rounded_div: "rounded (ieee_div x y)"
  by (cases x; cases y)
    (simp_all add: round_to_double_rounded rounded_zero rounded_special split: option.splits)

lemma is_double_rounded: "is_double x \<Longrightarrow> rounded x"
  by (cases x) (auto intro: round_to_double_rounded simp: rounded_special)

lemma decimal_no_overflow:
  assumes "rounded (Finite s v)"
  shows "of_int (round_half_even (v * 10 ^ n)) / 10 ^ n < double_overflow"
proof -
  from assms have lt: "v < double_overflow" and c: "of_int \<lfloor>v\<rfloor> = v \<or> v \<le> 2 ^ 52"
    by (simp_all only: rounded.simps)
  from c show ?thesis
  proof
    assume i: "of_int \<lfloor>v\<rfloor> = v"
    have "v * 10 ^ n = of_int \<lfloor>v\<rfloor> * 10 ^ n" by (simp only: i)
    also have "\<dots> = of_int (\<lfloor>v\<rfloor> * 10 ^ n)" by simp
    finally have "round_half_even (v * 10 ^ n) = \<lfloor>v\<rfloor> * 10 ^ n" by (simp only: rhe_of_int)
    then have "of_int (round_half_even (v * 10 ^ n)) / 10 ^ n = (of_int \<lfloor>v\<rfloor> :: rat)" by simp
    then have "of_int (round_half_even (v * 10 ^ n)) / 10 ^ n = v" by (simp only: i)
    then show ?thesis using lt by simp
  next
    assume "v \<le> 2 ^ 52"
    then have "v * 10 ^ n \<le> 2 ^ 52 * 10 ^ n" by (simp add: mult_right_mono)
    then have "v * 10 ^ n \<le> of_int (2 ^ 52 * 10 ^ n)" by simp
    then have "round_half_even (v * 10 ^ n) \<le> 2 ^ 52 * 10 ^ n" by (rule rhe_le)
    then have "(of_int (round_half_even (v * 10 ^ n)) :: rat) \<le> of_int (2 ^ 52 * 10 ^ n)"
      by (simp only: of_int_le_iff)
    then have "of_int (round_half_even (v * 10 ^ n)) / 10 ^ n \<le> (2 ^ 52 :: rat)"
      by (simp add: divide_le_eq)
    then show ?thesis using double_overflow_big by simp
  qed
qed

lemma py_round_Finite:
  assumes "rounded (Finite s v)"
  shows "\<exists>w. py_round (Finite s v) n = Inr (Finite s w)"
proof (cases "323 < n")
  case True
  then show ?thesis by simp
next
  case False
  obtain w where "round_to_double (of_int (round_half_even (v * 10 ^ n)) / 10 ^ n) = Some w"
    using round_to_double_Some[OF decimal_no_overflow[OF assms]] by blast
  then show ?thesis using False by simp
qed

lemma py_round_ok: "rounded x \<Longrightarrow> \<exists>y. py_round x n = Inr y"
proof (cases x)
  case (Finite s v)
  assume "rounded x"
  then show ?thesis using py_round_Finite[of s v n] Finite by auto
qed simp_all

lemma float_of_int_1000: "py_float_of_int 1000 = Inr (Finite False 1000)"
  by (simp add: float_eval)

lemma float_of_int_million: "py_float_of_int 1000000 = Inr (Finite False 1000000)"
  by (simp add: float_eval)

lemma py_div_float_int_1000: "py_div_float_int x 1000 = Inr (ieee_div x (Finite False 1000))"
  by (simp add: py_div_float_int_def float_of_int_1000 py_float_truediv_def)

lemma py_div_float_int_million:
  "py_div_float_int x 1000000 = Inr (ieee_div x (Finite False 1000000))"
  by (simp add: py_div_float_int_def float_of_int_million py_float_truediv_def)


section \<open>The calculator: claims C1 and C2\<close>


lemma teg_plan_result_ok:
  assumes "rounded kwh"
  shows "\<exists>r_kwh r_co2 r_cc r_min r_max.
           py_round kwh 3 = Inr r_kwh \<and>
           py_round (py_float_mul kwh (float_lit (7 / 10))) 3 = Inr r_co2 \<and>
           py_round (py_float_mul (py_float_mul kwh (float_lit (7 / 10))) (float_lit (1 / 1000))) 4
             = Inr r_cc \<and>
           py_round (py_float_mul kwh (float_lit (218 / 1000))) 2 = Inr r_min \<and>
           py_round (py_float_mul kwh (float_lit (571 / 1000))) 2 = Inr r_max \<and>
           teg_plan_result n wh kwh =
             Inr (JObj
               [(''Total Energy Generated (Wh/day)'', JFloat wh),
                (''Total Energy (kWh/day)'', JFloat r_kwh),
                (''Number of TEG Modules'', JInt n),
                (''CO2 Saved (kg/day)'', JFloat r_co2),
                (''Carbon Credits Earned per Day'', JFloat r_cc),
                (''Daily Energy Cost Savings (RM Range)'',
                   JStr (''RM '' @ py_str_float r_min @ '' - RM '' @ py_str_float r_max))])"
proof -
  obtain r_kwh where 1: "py_round kwh 3 = Inr r_kwh"
    using py_round_ok[OF assms] by blast
  obtain r_co2 where 2: "py_round (py_float_mul kwh (float_lit (7 / 10))) 3 = Inr r_co2"
    using py_round_ok[OF rounded_mul] by blast
  obtain r_cc where 3:
    "py_round (py_float_mul (py_float_mul kwh (float_lit (7 / 10))) (float_lit (1 / 1000))) 4
       = Inr r_cc"
    using py_round_ok[OF rounded_mul] by blast
  obtain r_min where 4: "py_round (py_float_mul kwh (float_lit (218 / 1000))) 2 = Inr r_min"
    using py_round_ok[OF rounded_mul] by blast
  obtain r_max where 5: "py_round (py_float_mul kwh (float_lit (571 / 1000))) 2 = Inr r_max"
    using py_round_ok[OF rounded_mul] by blast
  show ?thesis
    using 1 2 3 4 5
    by (simp add: teg_plan_result_def co2_saved_kg_def carbon_credits_def min_savings_rm_def
        max_savings_rm_def CO2_PER_KWH_KG_def CARBON_CREDIT_PER_KG_def TARIFF_MIN_def
        TARIFF_MAX_def)
qed



lemma module_constant_quotient: "py_int_truediv 1 1000 = Inr CARBON_CREDIT_PER_KG"
  by (simp add: CARBON_CREDIT_PER_KG_def float_eval)

lemmas teg_eval =
  CO2_PER_KWH_KG_def CARBON_CREDIT_PER_KG_def TARIFF_MIN_def TARIFF_MAX_def
  total_energy_wh_def total_energy_kwh_def co2_saved_kg_def carbon_credits_def
  min_savings_rm_def max_savings_rm_def teg_plan_result_def calculate_teg_plan_def
  carbon_credits_by_division_def

lemma teg_plan_example:
  "calculate_teg_plan example_plan =
     Inr (JObj
       [(''Total Energy Generated (Wh/day)'', JFloat (float_lit 500)),
        (''Total Energy (kWh/day)'', JFloat (float_lit (5 / 10))),
        (''Number of TEG Modules'', JInt 100),
        (''CO2 Saved (kg/day)'', JFloat (float_lit (35 / 100))),
        (''Carbon Credits Earned per Day'', JFloat (float_lit (3 / 10000))),
        (''Daily Energy Cost Savings (RM Range)'', JStr ''RM 0.11 - RM 0.29'')])"
  by (simp add: example_plan_def teg_eval float_eval)

lemma teg_plan_overflow:
  "calculate_teg_plan
     \<lparr>num_tegs = 2 ^ 1024, energy_per_module_wh = float_lit 5, cost_per_module_rm = float_lit 2\<rparr>
   = Inl OverflowError"
  by (simp add: teg_eval float_eval)

lemma credits_product:
  "py_round (carbon_credits (co2_saved_kg (float_lit (225 / 10)))) 4 = Inr (float_lit (158 / 10000))"
  by (simp add: teg_eval float_eval)

lemma credits_division:
  "credits_field_by_division (co2_saved_kg (float_lit (225 / 10))) = Inr (float_lit (157 / 10000))"
  by (simp add: credits_field_by_division_def teg_eval float_eval)

lemma plan_1875:
  "total_energy_wh \<lparr>num_tegs = 1875, energy_per_module_wh = float_lit 12, cost_per_module_rm = float_lit 2\<rparr> = Inr (float_lit 22500) \<and>
   total_energy_kwh (float_lit 22500) = Inr (float_lit (225 / 10))"
  by (simp add: teg_eval float_eval)


text \<open>
  Claim C1, as amended.  For every input whose \<open>num_tegs\<close> converts to a float, that is
  with \<open>|num_tegs| < 2 ^ 1024 - 2 ^ 970\<close>, \<open>calculate_teg_plan\<close> returns a result and raises
  nothing: it computes \<open>total_energy_wh = num_tegs * energy_per_module_wh\<close>,
  \<open>total_energy_kwh = total_energy_wh / 1000\<close>, \<open>co2_saved_kg = total_energy_kwh * 0.7\<close>,
  \<open>carbon_credits = co2_saved_kg * (1 / 1000)\<close> (the product with the float constant, not a
  division by 1000), and the savings \<open>total_energy_kwh * 0.218\<close> and
  \<open>total_energy_kwh * 0.571\<close>, and returns the energy in Wh as computed and the other values
  rounded to 3, 3, 4, 2 and 2 decimals.  The output is the same for every value of
  \<open>cost_per_module_rm\<close>.  The function reads and writes no state: it is a function of its
  input alone.
\<close>

theorem teg_plan_computes:
  assumes "of_int \<bar>num_tegs data\<bar> < double_overflow"
  shows "\<exists>wh kwh r_kwh r_co2 r_cc r_min r_max.
           py_mul_int_float (num_tegs data) (energy_per_module_wh data) = Inr wh \<and>
           py_div_float_int wh 1000 = Inr kwh \<and>
           py_round kwh 3 = Inr r_kwh \<and>
           py_round (py_float_mul kwh (float_lit (7 / 10))) 3 = Inr r_co2 \<and>
           py_round (py_float_mul (py_float_mul kwh (float_lit (7 / 10))) (float_lit (1 / 1000))) 4
             = Inr r_cc \<and>
           py_round (py_float_mul kwh (float_lit (218 / 1000))) 2 = Inr r_min \<and>
           py_round (py_float_mul kwh (float_lit (571 / 1000))) 2 = Inr r_max \<and>
           (\<forall>c. calculate_teg_plan (data\<lparr>cost_per_module_rm := c\<rparr>) =
             Inr (JObj
               [(''Total Energy Generated (Wh/day)'', JFloat wh),
                (''Total Energy (kWh/day)'', JFloat r_kwh),
                (''Number of TEG Modules'', JInt (num_tegs data)),
                (''CO2 Saved (kg/day)'', JFloat r_co2),
                (''Carbon Credits Earned per Day'', JFloat r_cc),
                (''Daily Energy Cost Savings (RM Range)'',
                   JStr (''RM '' @ py_str_float r_min @ '' - RM '' @ py_str_float r_max))]))"
proof -
  obtain v where v: "round_to_double (of_int \<bar>num_tegs data\<bar>) = Some v"
    using round_to_double_Some[OF assms] by blast
  define wh where "wh = py_float_mul (Finite (num_tegs data < 0) v) (energy_per_module_wh data)"
  define kwh where "kwh = ieee_div wh (Finite False 1000)"
  have wh: "py_mul_int_float (num_tegs data) (energy_per_module_wh data) = Inr wh"
    by (simp only: py_mul_int_float_def py_float_of_int_def v wh_def option.case sum.case)
  have kwh: "py_div_float_int wh 1000 = Inr kwh"
    by (simp add: py_div_float_int_1000 kwh_def)
  have "rounded kwh" unfolding kwh_def by (rule rounded_div)
  from teg_plan_result_ok[OF this, of "num_tegs data" wh]
  obtain r_kwh r_co2 r_cc r_min r_max where r:
    "py_round kwh 3 = Inr r_kwh"
    "py_round (py_float_mul kwh (float_lit (7 / 10))) 3 = Inr r_co2"
    "py_round (py_float_mul (py_float_mul kwh (float_lit (7 / 10))) (float_lit (1 / 1000))) 4
       = Inr r_cc"
    "py_round (py_float_mul kwh (float_lit (218 / 1000))) 2 = Inr r_min"
    "py_round (py_float_mul kwh (float_lit (571 / 1000))) 2 = Inr r_max"
    "teg_plan_result (num_tegs data) wh kwh =
       Inr (JObj
         [(''Total Energy Generated (Wh/day)'', JFloat wh),
          (''Total Energy (kWh/day)'', JFloat r_kwh),
          (''Number of TEG Modules'', JInt (num_tegs data)),
          (''CO2 Saved (kg/day)'', JFloat r_co2),
          (''Carbon Credits Earned per Day'', JFloat r_cc),
          (''Daily Energy Cost Savings (RM Range)'',
             JStr (''RM '' @ py_str_float r_min @ '' - RM '' @ py_str_float r_max))])"
    by blast
  have "\<forall>c. calculate_teg_plan (data\<lparr>cost_per_module_rm := c\<rparr>) =
          teg_plan_result (num_tegs data) wh kwh"
    using wh kwh by (simp add: calculate_teg_plan_def total_energy_wh_def total_energy_kwh_def)
  with wh kwh r show ?thesis by (intro exI conjI) simp_all
qed

theorem teg_plan_computes_witness:
  "of_int \<bar>num_tegs example_plan\<bar> < double_overflow \<and>
   (\<exists>wh kwh r_kwh r_co2 r_cc r_min r_max.
      py_mul_int_float (num_tegs example_plan) (energy_per_module_wh example_plan) = Inr wh \<and>
      py_div_float_int wh 1000 = Inr kwh \<and>
      py_round kwh 3 = Inr r_kwh \<and>
      py_round (py_float_mul kwh (float_lit (7 / 10))) 3 = Inr r_co2 \<and>
      py_round (py_float_mul (py_float_mul kwh (float_lit (7 / 10))) (float_lit (1 / 1000))) 4
        = Inr r_cc \<and>
      py_round (py_float_mul kwh (float_lit (218 / 1000))) 2 = Inr r_min \<and>
      py_round (py_float_mul kwh (float_lit (571 / 1000))) 2 = Inr r_max \<and>
      (\<forall>c. calculate_teg_plan (example_plan\<lparr>cost_per_module_rm := c\<rparr>) =
        Inr (JObj
          [(''Total Energy Generated (Wh/day)'', JFloat wh),
           (''Total Energy (kWh/day)'', JFloat r_kwh),
           (''Number of TEG Modules'', JInt (num_tegs example_plan)),
           (''CO2 Saved (kg/day)'', JFloat r_co2),
           (''Carbon Credits Earned per Day'', JFloat r_cc),
           (''Daily Energy Cost Savings (RM Range)'',
              JStr (''RM '' @ py_str_float r_min @ '' - RM '' @ py_str_float r_max))])))"
proof -
  have h: "of_int \<bar>num_tegs example_plan\<bar> < double_overflow"
    by (simp add: example_plan_def double_overflow_def)
  show ?thesis using h teg_plan_computes[OF h] by blast
qed


text \<open>
  Claim C1 as stated fails in two places.  For \<open>num_tegs = 2 ^ 1024\<close> the product
  \<open>num_tegs * energy_per_module_wh\<close> raises \<open>OverflowError\<close>, so the operation can fail.
  For \<open>num_tegs = 1875\<close> and 12.0 Wh per module the energy is 22.5 kWh, and the credits
  that the code returns, from the product with \<open>1 / 1000\<close>, are 0.0158, where the division
  \<open>co2_saved_kg / 1000\<close> of the claim gives 0.0157.
\<close>

theorem teg_plan_counterexample:
  "calculate_teg_plan
     \<lparr>num_tegs = 2 ^ 1024, energy_per_module_wh = float_lit 5, cost_per_module_rm = float_lit 2\<rparr>
     = Inl OverflowError \<and>
   total_energy_wh
     \<lparr>num_tegs = 1875, energy_per_module_wh = float_lit 12, cost_per_module_rm = float_lit 2\<rparr>
     = Inr (float_lit 22500) \<and>
   total_energy_kwh (float_lit 22500) = Inr (float_lit (225 / 10)) \<and>
   py_round (carbon_credits (co2_saved_kg (float_lit (225 / 10)))) 4
     = Inr (float_lit (158 / 10000)) \<and>
   credits_field_by_division (co2_saved_kg (float_lit (225 / 10)))
     = Inr (float_lit (157 / 10000))"
  using teg_plan_overflow plan_1875 credits_product credits_division by blast

text \<open>
  Claim C2, as amended.  For \<open>num_tegs = 100\<close>, 5.0 Wh per module and a module cost of 2.0,
  \<open>calculate_teg_plan\<close> returns the energy 500.0 Wh and 0.5 kWh, 0.35 kg of CO2, the carbon
  credits 0.0003 (the computed 0.00035 rounded to four decimals) and the range string
  \<open>RM 0.11 - RM 0.29\<close> (both savings rounded to two decimals).
\<close>

theorem teg_plan_example_result:
  "calculate_teg_plan example_plan =
     Inr (JObj
       [(''Total Energy Generated (Wh/day)'', JFloat (float_lit 500)),
        (''Total Energy (kWh/day)'', JFloat (float_lit (5 / 10))),
        (''Number of TEG Modules'', JInt 100),
        (''CO2 Saved (kg/day)'', JFloat (float_lit (35 / 100))),
        (''Carbon Credits Earned per Day'', JFloat (float_lit (3 / 10000))),
        (''Daily Energy Cost Savings (RM Range)'', JStr ''RM 0.11 - RM 0.29'')])"
  by (rule teg_plan_example)

text \<open>
  Claim C2 as stated fails: the result is not the one with the credits 0.00035 and the
  range string \<open>RM 0.109 - RM 0.2855\<close>.
\<close>

theorem teg_plan_example_counterexample:
  "calculate_teg_plan example_plan \<noteq>
     Inr (JObj
       [(''Total Energy Generated (Wh/day)'', JFloat (float_lit 500)),
        (''Total Energy (kWh/day)'', JFloat (float_lit (5 / 10))),
        (''Number of TEG Modules'', JInt 100),
        (''CO2 Saved (kg/day)'', JFloat (float_lit (35 / 100))),
        (''Carbon Credits Earned per Day'', JFloat (float_lit (35 / 100000))),
        (''Daily Energy Cost Savings (RM Range)'', JStr ''RM 0.109 - RM 0.2855'')])"
  by (simp add: teg_plan_example)

section \<open>Lemmas about \<open>get_lst\<close> and the map endpoints\<close>

lemma lst_filename_ok:
  assumes "is_double (lat data)" "is_double (lon data)"
  shows "\<exists>a b. py_round (lat data) 6 = Inr a \<and> py_round (lon data) 6 = Inr b \<and>
           (\<forall>t. lst_filename data t =
              Inr (''lst_'' @ py_str_float a @ ''_'' @ py_str_float b @ ''_'' @
                   strftime_stamp t @ ''.png''))"
proof -
  obtain a where a: "py_round (lat data) 6 = Inr a"
    using py_round_ok[OF is_double_rounded[OF assms(1)]] by blast
  obtain b where b: "py_round (lon data) 6 = Inr b"
    using py_round_ok[OF is_double_rounded[OF assms(2)]] by blast
  show ?thesis using a b by (simp add: lst_filename_def)
qed

lemma get_lst_reaches:
  assumes "reaches_download env data start_date url lst_value srad_value response"
  shows "\<exists>filename. lst_filename data (now env) = Inr filename \<and>
           get_lst env data fs =
             lst_download response (path_join OUTPUT_DIR filename) url
               (dict_get lst_value ''LST_Day_1km'')
               (dict_get srad_value ''surface_solar_radiation_downwards_sum'') fs"
proof -
  from assms have d: "is_double (lat data)" "is_double (lon data)"
    by (simp_all add: reaches_download_def)
  obtain filename where f: "lst_filename data (now env) = Inr filename"
    using lst_filename_ok[OF d] by blast
  from assms obtain n where n: "size_getInfo env (lst_collection (area data) start_date (utcnow env)) = Inr n" "n \<noteq> 0"
    by (auto simp: reaches_download_def split: sum.splits)
  show ?thesis
    using assms f n by (simp add: reaches_download_def get_lst_def lst_fetch_def Let_def)
qed

lemmas date_eval =
  minus_days_def ymd2ord_def ord2ymd_def days_before_year_def days_before_month_def
  is_leap_def DAYS_BEFORE_MONTH_def DAYS_IN_MONTH_def MAXORDINAL_def Let_def

lemma example_window: "minus_days (utcnow (example_env n lv sv st)) 200 = Inr example_start"
  by (simp add: example_env_def example_start_def date_eval)

lemma example_request_double: "is_double (lat example_request)" "is_double (lon example_request)"
  by (simp_all add: example_request_def float_eval)

lemma example_reaches:
  assumes "n \<noteq> 0" "sample_ok lv" "sample_ok sv"
  shows "reaches_download (example_env n lv sv st) example_request example_start example_url
     [''LST_Day_1km'' \<mapsto> lv] [''surface_solar_radiation_downwards_sum'' \<mapsto> sv]
     \<lparr>status_code = st, content = ''PNG''\<rparr>"
  unfolding reaches_download_def
  using assms example_request_double example_window[of n lv sv st]
  by (simp add: dict_get_def) (simp add: example_env_def lst_image_def solar_image_def)

lemma lst_field_falsy: "falsy v \<Longrightarrow> lst_field v = Inr JNull"
  by (auto simp: falsy_def lst_field_def split: option.splits)

lemma solar_field_falsy: "falsy v \<Longrightarrow> solar_field v = Inr JNull"
  by (auto simp: falsy_def solar_field_def split: option.splits)

lemma lst_field_truthy:
  assumes "py_bool x" "is_double x"
  shows "\<exists>r. py_round x 2 = Inr r \<and> lst_field (Some x) = Inr (JFloat r)"
proof -
  obtain r where "py_round x 2 = Inr r"
    using py_round_ok[OF is_double_rounded[OF assms(2)]] by blast
  then show ?thesis using assms(1) by (simp add: lst_field_def)
qed

lemma solar_field_truthy:
  assumes "py_bool y"
  shows "\<exists>w r. py_div_float_int y 1000000 = Inr w \<and> py_round w 2 = Inr r \<and>
           solar_field (Some y) = Inr (JFloat r)"
proof -
  obtain r where "py_round (ieee_div y (Finite False 1000000)) 2 = Inr r"
    using py_round_ok[OF rounded_div] by blast
  then show ?thesis using assms by (simp add: solar_field_def py_div_float_int_million)
qed

lemma lst_field_ok: "sample_ok v \<Longrightarrow> \<exists>j. lst_field v = Inr j"
proof (cases v)
  case None
  then show ?thesis by (simp add: lst_field_def)
next
  case (Some x)
  assume "sample_ok v"
  then have d: "is_double x" using Some by (simp add: sample_ok_def)
  show ?thesis
  proof (cases "py_bool x")
    case True
    then show ?thesis using lst_field_truthy[OF True d] Some by auto
  next
    case False
    then show ?thesis using Some by (simp add: lst_field_def)
  qed
qed

lemma solar_field_ok: "\<exists>j. solar_field v = Inr j"
proof (cases v)
  case None
  then show ?thesis by (simp add: solar_field_def)
next
  case (Some y)
  show ?thesis
  proof (cases "py_bool y")
    case True
    then show ?thesis using solar_field_truthy[OF True] Some by auto
  next
    case False
    then show ?thesis using Some by (simp add: solar_field_def)
  qed
qed

lemma get_lst_success:
  assumes "reaches_download env data start_date url lst_value srad_value response"
    and "status_code response = 200"
  shows "\<exists>filename l r.
           lst_filename data (now env) = Inr filename \<and>
           lst_field (dict_get lst_value ''LST_Day_1km'') = Inr l \<and>
           solar_field (dict_get srad_value ''surface_solar_radiation_downwards_sum'') = Inr r \<and>
           get_lst env data fs =
             (Inr (JObj
                [(''message'', JStr ''LST image saved.''),
                 (''path'', JStr (path_join OUTPUT_DIR filename)),
                 (''url'', JStr url),
                 (''lst'', l),
                 (''solar_radiation'', r)]),
              fs(path_join OUTPUT_DIR filename \<mapsto> content response))"
proof -
  obtain filename where f: "lst_filename data (now env) = Inr filename"
    and g: "get_lst env data fs =
             lst_download response (path_join OUTPUT_DIR filename) url
               (dict_get lst_value ''LST_Day_1km'')
               (dict_get srad_value ''surface_solar_radiation_downwards_sum'') fs"
    using get_lst_reaches[OF assms(1), of fs] by blast
  have "sample_ok (dict_get lst_value ''LST_Day_1km'')"
    using assms(1) by (simp add: reaches_download_def)
  then obtain l where l: "lst_field (dict_get lst_value ''LST_Day_1km'') = Inr l"
    using lst_field_ok by blast
  obtain r where r: "solar_field (dict_get srad_value ''surface_solar_radiation_downwards_sum'') = Inr r"
    using solar_field_ok by blast
  show ?thesis using f g l r assms(2) by (simp add: lst_download_def Let_def)
qed

lemma get_lst_fields:
  assumes "reaches_download env data start_date url lst_value srad_value response"
    and "status_code response = 200"
  shows "\<exists>l r.
           lst_field (dict_get lst_value ''LST_Day_1km'') = Inr l \<and>
           solar_field (dict_get srad_value ''surface_solar_radiation_downwards_sum'') = Inr r \<and>
           response_field (get_lst env data fs) ''lst'' = Some l \<and>
           response_field (get_lst env data fs) ''solar_radiation'' = Some r"
  using get_lst_success[OF assms, of fs] by auto

lemma round_to_double_zero: "round_to_double 0 = Some 0"
  by (simp add: round_to_double_def double_overflow_def)

lemma round_to_double_le:
  assumes "0 \<le> q" "q \<le> of_int k * 2 powi j" "- 1074 \<le> j" "q < 2 powi (j + 53)"
    and "round_to_double q = Some v"
  shows "v \<le> of_int k * 2 powi j"
proof (cases "q = 0")
  case True
  then have "v = 0" using assms(5) by (simp add: round_to_double_zero)
  then show ?thesis using assms(2) True by simp
next
  case False
  then have qpos: "0 < q" using assms(1) by simp
  define p where "p = double_ulp_exp q"
  define m where "m = round_half_even (q / 2 powi p)"
  have v: "v = of_int m * 2 powi p"
    using round_to_double_pos(2)[OF False assms(5)] by (simp add: p_def m_def)
  define e where "e = floor_log 2 q"
  have lo: "2 powi e \<le> q" using floor_log_bounds(1)[OF qpos] by (simp add: e_def)
  have "e < j + 53"
  proof (rule ccontr)
    assume "\<not> e < j + 53"
    then have "(2::rat) powi (j + 53) \<le> 2 powi e" by (intro pow2_mono) simp
    with lo assms(4) show False by linarith
  qed
  then have pj: "p \<le> j" using assms(3) by (simp add: p_def double_ulp_exp_def e_def[symmetric])
  have split: "(2::rat) powi j = of_int (2 ^ nat (j - p)) * 2 powi p"
  proof -
    have "(2::rat) powi j = 2 powi (j - p) * 2 powi p" by (simp add: power_int_add[symmetric])
    also have "(2::rat) powi (j - p) = of_int (2 ^ nat (j - p))" using pj by (intro pow2_nat) simp
    finally show ?thesis .
  qed
  have "q / 2 powi p \<le> of_int k * 2 powi j / 2 powi p"
    using assms(2) by (simp add: divide_right_mono)
  also have "\<dots> = of_int (k * 2 ^ nat (j - p))" by (subst split) simp
  finally have "m \<le> k * 2 ^ nat (j - p)" unfolding m_def by (rule rhe_le)
  then have "(of_int m :: rat) \<le> of_int (k * 2 ^ nat (j - p))" by (simp only: of_int_le_iff)
  then have "of_int m * 2 powi p \<le> (of_int (k * 2 ^ nat (j - p)) :: rat) * 2 powi p"
    by (rule mult_right_mono) simp
  also have "\<dots> = of_int k * 2 powi j" by (subst split) simp
  finally show ?thesis by (simp add: v)
qed

lemma decimal_nonneg: "0 \<le> q \<Longrightarrow> (0::rat) \<le> of_int (round_half_even (q * 10 ^ n)) / 10 ^ n"
proof -
  assume "0 \<le> q"
  then have "of_int 0 \<le> q * 10 ^ n" by simp
  then have "0 \<le> round_half_even (q * 10 ^ n)" by (rule rhe_ge)
  then show ?thesis by simp
qed

lemma py_round_between:
  assumes "is_double x" "float_between (- 60) 60 x" "py_round x 2 = Inr r"
  shows "float_between (- 60) 60 r"
proof (cases x)
  case (Finite s q)
  have q0: "0 \<le> q" using assms(1) Finite by simp
  have q60: "q \<le> 60" using assms(2) Finite by (simp split: if_splits)
  define d :: rat where "d = of_int (round_half_even (q * 10 ^ 2)) / 10 ^ 2"
  obtain w where w: "round_to_double d = Some w" and r: "r = Finite s w"
    using assms(3) Finite by (auto simp: d_def split: option.splits)
  have d0: "0 \<le> d" unfolding d_def using q0 by (rule decimal_nonneg)
  have "q * 10 ^ 2 \<le> of_int 6000" using q60 by simp
  then have "round_half_even (q * 10 ^ 2) \<le> 6000" by (rule rhe_le)
  then have "(of_int (round_half_even (q * 10 ^ 2)) :: rat) \<le> of_int 6000"
    by (simp only: of_int_le_iff)
  then have d60: "d \<le> 60" by (simp add: d_def)
  have "w \<le> of_int 15 * 2 powi 2"
    using d0 _ _ _ w by (rule round_to_double_le) (use d60 in simp_all)
  then have w60: "w \<le> 60" by simp
  have w0: "0 \<le> w" using round_to_double_out[OF d0 w] by simp
  show ?thesis using w0 w60 by (simp add: r)
next
  case (Infinity s)
  then show ?thesis using assms(2) by simp
next
  case NaN
  then show ?thesis using assms(2) by simp
qed

lemma solar_nonneg:
  assumes "is_double y" "float_nonneg y" "py_bool y"
    and "py_div_float_int y 1000000 = Inr w" "py_round w 2 = Inr r"
  shows "float_nonneg r"
proof (cases y)
  case (Finite s q)
  have q0: "0 \<le> q" and fp: "round_to_double q = Some q" using assms(1) Finite by simp_all
  have qn: "q \<noteq> 0" using assms(3) Finite by (simp add: py_bool_def)
  have s: "\<not> s" using assms(2) Finite q0 qn by (simp split: if_splits)
  have qlt: "q < double_overflow" using round_to_double_out[OF q0 fp] by simp
  have "q / 1000000 \<le> q" using q0 by simp
  then have "q / 1000000 < double_overflow" using qlt by simp
  then obtain v where v: "round_to_double (q / 1000000) = Some v"
    using round_to_double_Some by blast
  have v0: "0 \<le> v" using round_to_double_out[OF _ v] q0 by simp
  have w: "w = Finite False v"
    using assms(4) Finite s v by (simp add: py_div_float_int_million)
  define d :: rat where "d = of_int (round_half_even (v * 10 ^ 2)) / 10 ^ 2"
  obtain u where u: "round_to_double d = Some u" and r: "r = Finite False u"
    using assms(5) w by (auto simp: d_def split: option.splits)
  have "0 \<le> d" unfolding d_def using v0 by (rule decimal_nonneg)
  then have "0 \<le> u" using round_to_double_out[OF _ u] by simp
  then show ?thesis by (simp add: r)
next
  case (Infinity s)
  then show ?thesis using assms(2) by simp
next
  case NaN
  then show ?thesis using assms(2) by simp
qed

lemma lst_field_cases:
  assumes "sample_ok v" "lst_field v = Inr l"
  shows "l = JNull \<or>
         (\<exists>t x. v = Some t \<and> l = JFloat x \<and>
                (float_between (- 60) 60 t \<longrightarrow> float_between (- 60) 60 x))"
proof (cases "falsy v")
  case True
  then show ?thesis using assms(2) lst_field_falsy by auto
next
  case False
  then obtain t where t: "v = Some t" "py_bool t"
    by (auto simp: falsy_def split: option.splits)
  have d: "is_double t" using assms(1) t by (simp add: sample_ok_def)
  obtain x where x: "py_round t 2 = Inr x" "lst_field (Some t) = Inr (JFloat x)"
    using lst_field_truthy[OF t(2) d] by blast
  have "float_between (- 60) 60 t \<longrightarrow> float_between (- 60) 60 x"
    using py_round_between[OF d _ x(1)] by blast
  then show ?thesis using t x assms(2) by auto
qed

lemma solar_field_cases:
  assumes "sample_ok v" "solar_field v = Inr r"
  shows "r = JNull \<or>
         (\<exists>t y. v = Some t \<and> r = JFloat y \<and> (float_nonneg t \<longrightarrow> float_nonneg y))"
proof (cases "falsy v")
  case True
  then show ?thesis using assms(2) solar_field_falsy by auto
next
  case False
  then obtain t where t: "v = Some t" "py_bool t"
    by (auto simp: falsy_def split: option.splits)
  have d: "is_double t" using assms(1) t by (simp add: sample_ok_def)
  obtain w y where y: "py_div_float_int t 1000000 = Inr w" "py_round w 2 = Inr y"
    "solar_field (Some t) = Inr (JFloat y)"
    using solar_field_truthy[OF t(2)] by blast
  have "float_nonneg t \<longrightarrow> float_nonneg y"
    using solar_nonneg[OF d _ t(2) y(1) y(2)] by blast
  then show ?thesis using t y assms(2) by auto
qed

lemma example_filename:
  "lst_filename example_request t = Inr (''lst_3.139_101.6869_'' @ strftime_stamp t @ ''.png'')"
  by (simp add: lst_filename_def example_request_def float_eval)

lemma example_stamp: "strftime_stamp (now (example_env n lv sv st)) = ''20261104150509''"
  by (simp add: example_env_def strftime_stamp_def zero_pad_def)

lemma example_run:
  assumes "n \<noteq> 0" "sample_ok lv" "sample_ok sv"
  shows "get_lst (example_env n lv sv st) example_request fs =
           lst_download \<lparr>status_code = st, content = ''PNG''\<rparr> example_path example_url lv sv fs"
  using get_lst_reaches[OF example_reaches[OF assms, of st], of fs]
  by (simp add: example_filename example_stamp example_path_def path_join_def OUTPUT_DIR_def
      dict_get_def)

lemma sample_ok_None: "sample_ok None"
  by (simp add: sample_ok_def)

lemma sample_ok_radiation: "sample_ok (Some (float_lit 15000000))"
  by (simp add: sample_ok_def float_eval)

lemma sample_ok_hot: "sample_ok (Some (float_lit (707 / 10)))"
  by (simp add: sample_ok_def float_eval)

lemma sample_ok_negative: "sample_ok (Some (Finite True 2500000))"
  by (simp add: sample_ok_def float_eval)

lemma sample_ok_warm: "sample_ok (Some (float_lit (314159 / 10000)))"
  by (simp add: sample_ok_def float_eval)

lemma sample_ok_zero: "sample_ok (Some (Finite False 0))"
  by (simp add: sample_ok_def float_eval)

lemma field_radiation: "solar_field (Some (float_lit 15000000)) = Inr (JFloat (float_lit 15))"
  by (simp add: solar_field_def float_eval)

lemma field_hot: "lst_field (Some (float_lit (707 / 10))) = Inr (JFloat (float_lit (707 / 10)))"
  by (simp add: lst_field_def float_eval)

lemma field_negative: "solar_field (Some (Finite True 2500000)) = Inr (JFloat (Finite True (25 / 10)))"
  by (simp add: solar_field_def float_eval)

lemma field_warm:
  "py_round (float_lit (314159 / 10000)) 2 = Inr (float_lit (3142 / 100))"
  by (simp add: float_eval)

lemma hot_out_of_range: "\<not> float_between (- 60) 60 (float_lit (707 / 10))"
  by (simp add: float_eval)

lemma lst_field_None: "lst_field None = Inr JNull"
  by (simp add: lst_field_def)

lemma warm_reaches:
  "reaches_download
     (example_env 181 (Some (float_lit (314159 / 10000))) (Some (float_lit 15000000)) 200)
     example_request example_start example_url
     [''LST_Day_1km'' \<mapsto> Some (float_lit (314159 / 10000))]
     [''surface_solar_radiation_downwards_sum'' \<mapsto> Some (float_lit 15000000)]
     \<lparr>status_code = 200, content = ''PNG''\<rparr>"
  by (rule example_reaches) (simp_all add: sample_ok_warm sample_ok_radiation)

lemma zero_falsy: "falsy (Some (Finite False 0))"
  by (simp add: falsy_def py_bool_def)

lemma cold_reaches:
  "reaches_download (example_env 181 (Some (Finite False 0)) (Some (float_lit 15000000)) 200)
     example_request example_start example_url
     [''LST_Day_1km'' \<mapsto> Some (Finite False 0)]
     [''surface_solar_radiation_downwards_sum'' \<mapsto> Some (float_lit 15000000)]
     \<lparr>status_code = 200, content = ''PNG''\<rparr>"
  by (rule example_reaches) (simp_all add: sample_ok_zero sample_ok_radiation)

lemma dark_reaches:
  "reaches_download
     (example_env 181 (Some (float_lit (314159 / 10000))) (Some (Finite False 0)) 200)
     example_request example_start example_url
     [''LST_Day_1km'' \<mapsto> Some (float_lit (314159 / 10000))]
     [''surface_solar_radiation_downwards_sum'' \<mapsto> Some (Finite False 0)]
     \<lparr>status_code = 200, content = ''PNG''\<rparr>"
  by (rule example_reaches) (simp_all add: sample_ok_zero sample_ok_warm)

lemma warm_truthy: "py_bool (float_lit (314159 / 10000))"
  by (simp add: float_eval)

lemma radiation_truthy: "py_bool (float_lit 15000000)"
  by (simp add: float_eval)

lemma radiation_scaled:
  "py_div_float_int (float_lit 15000000) 1000000 = Inr (float_lit 15)"
  "py_round (float_lit 15) 2 = Inr (float_lit 15)"
  by (simp_all add: float_eval)

lemma lst_fetch_frame:
  assumes "thumb (lst_image (lst_collection (area data) start end_date) (area data))
      (vis_params (area data)) =
      getThumbURL env (lst_image (lst_collection (area data) start end_date) (area data))
        (vis_params (area data))"
    and "reduce (lst_image (lst_collection (area data) start end_date) (area data))
      (point data) 1000 =
      reduceRegion_mean env
        (lst_image (lst_collection (area data) start end_date) (area data))
        (point data) 1000"
    and "reduce (solar_image (srad_collection (area data) start end_date) (area data))
      (point data) 1000 =
      reduceRegion_mean env
        (solar_image (srad_collection (area data) start end_date) (area data))
        (point data) 1000"
  shows "lst_fetch (env\<lparr>getThumbURL := thumb, reduceRegion_mean := reduce\<rparr>) data start
           end_date fs = lst_fetch env data start end_date fs"
  using assms by (simp add: lst_fetch_def Let_def cong: sum.case_cong)

lemma example_utcnow:
  "utcnow (example_env n lv sv st) =
     \<lparr>year = 2026, month = 11, day = 4, hour = 7, minute = 5, second = 9\<rparr>"
  by (simp add: example_env_def)

lemma example_strict_oracles:
  "example_thumb
     (lst_image
        (lst_collection (area example_request) example_start
           (utcnow (example_env 181 (Some (float_lit (314159 / 10000)))
              (Some (float_lit 15000000)) 200)))
        (area example_request))
     (vis_params (area example_request)) =
   getThumbURL (example_env 181 (Some (float_lit (314159 / 10000)))
       (Some (float_lit 15000000)) 200)
     (lst_image
        (lst_collection (area example_request) example_start
           (utcnow (example_env 181 (Some (float_lit (314159 / 10000)))
              (Some (float_lit 15000000)) 200)))
        (area example_request))
     (vis_params (area example_request))"
  "example_sample
     (lst_image
        (lst_collection (area example_request) example_start
           (utcnow (example_env 181 (Some (float_lit (314159 / 10000)))
              (Some (float_lit 15000000)) 200)))
        (area example_request))
     (point example_request) 1000 =
   reduceRegion_mean (example_env 181 (Some (float_lit (314159 / 10000)))
       (Some (float_lit 15000000)) 200)
     (lst_image
        (lst_collection (area example_request) example_start
           (utcnow (example_env 181 (Some (float_lit (314159 / 10000)))
              (Some (float_lit 15000000)) 200)))
        (area example_request))
     (point example_request) 1000"
  "example_sample
     (solar_image
        (srad_collection (area example_request) example_start
           (utcnow (example_env 181 (Some (float_lit (314159 / 10000)))
              (Some (float_lit 15000000)) 200)))
        (area example_request))
     (point example_request) 1000 =
   reduceRegion_mean (example_env 181 (Some (float_lit (314159 / 10000)))
       (Some (float_lit 15000000)) 200)
     (solar_image
        (srad_collection (area example_request) example_start
           (utcnow (example_env 181 (Some (float_lit (314159 / 10000)))
              (Some (float_lit 15000000)) 200)))
        (area example_request))
     (point example_request) 1000"
  by (simp_all add: example_thumb_def example_sample_def example_utcnow)
     (simp_all add: example_env_def lst_image_def solar_image_def)

lemma example_strict_raises:
  "example_thumb
     (raw_lst (lst_collection (area example_request) example_start
        (utcnow example_strict_env)))
     (vis_params (area example_request)) = Inl EEException"
  "example_sample
     (raw_lst (lst_collection (area example_request) example_start
        (utcnow example_strict_env)))
     (point example_request) 1000 = Inl EEException"
  "example_sample
     (Clip (raw_lst (lst_collection (area example_request) example_start
        (utcnow example_strict_env))) (area example_request))
     (point example_request) 1000 = Inl EEException"
  by (simp_all add: example_thumb_def example_sample_def lst_image_def solar_image_def
      raw_lst_def)

lemma example_strict_reaches:
  "reaches_download example_strict_env example_request example_start example_url
     [''LST_Day_1km'' \<mapsto> Some (float_lit (314159 / 10000))]
     [''surface_solar_radiation_downwards_sum'' \<mapsto> Some (float_lit 15000000)]
     \<lparr>status_code = 200, content = ''PNG''\<rparr>"
  unfolding reaches_download_def
  using example_request_double
    example_window[of 181 "Some (float_lit (314159 / 10000))" "Some (float_lit 15000000)" 200]
    sample_ok_warm sample_ok_radiation
  by (simp add: example_strict_env_def example_thumb_def example_sample_def example_utcnow
      dict_get_def)
     (simp add: example_env_def lst_image_def solar_image_def)

lemma street_view_saved:
  assumes "fetched env (street_view_url env loc) response"
  shows "get_street_view env loc fs =
           (Inr (JObj
              [(''message'', JStr ''Street View image saved''),
               (''file_path'', JStr (path_join SAVE_DIR (street_view_filename loc)))]),
            fs(path_join SAVE_DIR (street_view_filename loc) \<mapsto> content response))"
  using assms by (simp add: fetched_def get_street_view_def Let_def)

lemma hybrid_map_saved:
  assumes "fetched env (hybrid_url env loc) response"
  shows "get_hybrid_map env loc fs =
           (Inr (JObj
              [(''message'', JStr ''Hybrid satellite image saved''),
               (''file_path'', JStr (path_join SAVE_DIR (hybrid_map_filename loc)))]),
            fs(path_join SAVE_DIR (hybrid_map_filename loc) \<mapsto> content response))"
  using assms by (simp add: fetched_def get_hybrid_map_def Let_def)

lemma example_street_view_path:
  "path_join SAVE_DIR (street_view_filename example_location) =
     ''static/maps/streetview_3_139_101_6869.jpg''"
  by (simp add: path_join_def SAVE_DIR_def street_view_filename_def example_location_def
      replace_dot_def float_eval)

lemma example_hybrid_map_path:
  "path_join SAVE_DIR (hybrid_map_filename example_location) =
     ''static/maps/hybridmap_3_139_101_6869.jpg''"
  by (simp add: path_join_def SAVE_DIR_def hybrid_map_filename_def example_location_def
      replace_dot_def float_eval)

lemma example_fetched:
  "fetched (example_env 181 None None 200) u \<lparr>status_code = 200, content = ''PNG''\<rparr>"
  "fetched example_env2 u \<lparr>status_code = 200, content = ''JPEG''\<rparr>"
  by (simp_all add: fetched_def example_env_def example_env2_def)

lemma lst_field_null_iff:
  assumes "sample_ok v" "lst_field v = Inr l"
  shows "l = JNull \<longleftrightarrow> falsy v"
proof (cases "falsy v")
  case True
  then show ?thesis using assms(2) lst_field_falsy by auto
next
  case False
  then obtain x where x: "v = Some x" "py_bool x"
    by (auto simp: falsy_def split: option.splits)
  have d: "is_double x" using assms(1) x by (simp add: sample_ok_def)
  obtain r where "lst_field (Some x) = Inr (JFloat r)"
    using lst_field_truthy[OF x(2) d] by blast
  then show ?thesis using False x assms(2) by auto
qed

lemma solar_field_null_iff:
  assumes "solar_field v = Inr r"
  shows "r = JNull \<longleftrightarrow> falsy v"
proof (cases "falsy v")
  case True
  then show ?thesis using assms solar_field_falsy by auto
next
  case False
  then obtain y where y: "v = Some y" "py_bool y"
    by (auto simp: falsy_def split: option.splits)
  obtain w q where "solar_field (Some y) = Inr (JFloat q)"
    using solar_field_truthy[OF y(2)] by blast
  then show ?thesis using False y assms by auto
qed

lemma example_fields:
  assumes "n \<noteq> 0" "sample_ok lv" "sample_ok sv" "lst_field lv = Inr l" "solar_field sv = Inr r"
  shows "response_field (get_lst (example_env n lv sv 200) example_request fs) ''lst'' = Some l"
    and "response_field (get_lst (example_env n lv sv 200) example_request fs)
           ''solar_radiation'' = Some r"
  using assms by (simp_all add: example_run lst_download_def Let_def)

lemma field_warm_json:
  "lst_field (Some (float_lit (314159 / 10000))) = Inr (JFloat (float_lit (3142 / 100)))"
  using field_warm warm_truthy by (simp add: lst_field_def)

lemma field_zero: "lst_field (Some (Finite False 0)) = Inr JNull"
  "solar_field (Some (Finite False 0)) = Inr JNull"
  by (simp_all add: lst_field_falsy solar_field_falsy zero_falsy)

lemma not_falsy_examples:
  "\<not> falsy (Some (float_lit (314159 / 10000)))" "\<not> falsy (Some (float_lit 15000000))"
  using warm_truthy radiation_truthy by (simp_all add: falsy_def)

lemma example_size_values:
  "example_size
     (lst_collection (area example_request) example_start
        (utcnow (example_env 181 None (Some (float_lit 15000000)) 200))) =
   size_getInfo (example_env 181 None (Some (float_lit 15000000)) 200)
     (lst_collection (area example_request) example_start
        (utcnow (example_env 181 None (Some (float_lit 15000000)) 200)))"
  "example_size
     (srad_collection (area example_request) example_start
        (utcnow (example_env 181 None (Some (float_lit 15000000)) 200))) = Inr 0"
  "example_size
     (FilterDate (FilterBounds (ImageCollection ''ECMWF/ERA5_LAND/DAILY_AGGR'')
        (area example_request))
        (strftime_date example_start)
        (strftime_date (utcnow (example_env 181 None (Some (float_lit 15000000)) 200)))) = Inr 0"
  by (simp_all add: example_size_def example_env_def srad_collection_def lst_collection_def)


lemma str_of_nat_small: "n < 10 \<Longrightarrow> str_of_nat n = [''0123456789'' ! n]"
  supply str_of_nat.simps [simp del]
  by (subst str_of_nat.simps) simp

lemma str_of_nat_big:
  "\<not> n < 10 \<Longrightarrow> str_of_nat n = str_of_nat (n div 10) @ [''0123456789'' ! (n mod 10)]"
  supply str_of_nat.simps [simp del]
  by (subst str_of_nat.simps) simp

lemma digit_inj:
  assumes "a < 10" "b < 10" "''0123456789'' ! a = ''0123456789'' ! b"
  shows "a = b"
proof -
  have "distinct ''0123456789''" by simp
  then show ?thesis using assms by (simp add: nth_eq_iff_index_eq)
qed

lemma str_of_nat_length: "(n < 10 \<longrightarrow> length (str_of_nat n) = 1) \<and> (\<not> n < 10 \<longrightarrow> 2 \<le> length (str_of_nat n))"
  supply str_of_nat.simps [simp del]
proof (induction n rule: str_of_nat.induct)
  case (1 n)
  show ?case
  proof (cases "n < 10")
    case True
    then show ?thesis by (simp add: str_of_nat_small)
  next
    case False
    have "1 \<le> length (str_of_nat (n div 10))"
      using 1[OF False] by (cases "n div 10 < 10") auto
    then show ?thesis using False by (simp add: str_of_nat_big[OF False])
  qed
qed

lemma str_of_nat_inj: "str_of_nat a = str_of_nat b \<Longrightarrow> a = b"
  supply str_of_nat.simps [simp del]
proof (induction a arbitrary: b rule: str_of_nat.induct)
  case (1 n)
  show ?case
  proof (cases "n < 10")
    case True
    then have l: "length (str_of_nat b) = 1" using 1(2) str_of_nat_length[of n] by simp
    then have b: "b < 10" using str_of_nat_length[of b] by (cases "b < 10") auto
    then show ?thesis using True 1(2) digit_inj[of n b] by (simp add: str_of_nat_small)
  next
    case False
    then have "2 \<le> length (str_of_nat b)" using 1(2) str_of_nat_length[of n] by simp
    then have b: "\<not> b < 10" using str_of_nat_length[of b] by (cases "b < 10") auto
    from 1(2) have "str_of_nat (n div 10) = str_of_nat (b div 10)"
      and d: "''0123456789'' ! (n mod 10) = ''0123456789'' ! (b mod 10)"
      using False b by (simp_all add: str_of_nat_big)
    then have "n div 10 = b div 10" using 1(1)[OF False] by blast
    moreover have "n mod 10 = b mod 10" using digit_inj[OF _ _ d] by simp
    ultimately show ?thesis by (metis div_mult_mod_eq)
  qed
qed

lemma zero_pad_2:
  assumes "0 \<le> n" "n < 100"
  shows "zero_pad 2 n = [''0123456789'' ! (nat n div 10), ''0123456789'' ! (nat n mod 10)]"
  supply str_of_nat.simps [simp del]
proof (cases "nat n < 10")
  case True
  then show ?thesis by (simp add: zero_pad_def str_of_nat_small)
next
  case False
  have "nat n div 10 < 10" using assms by simp
  then show ?thesis using False by (simp add: zero_pad_def str_of_nat_big str_of_nat_small)
qed

lemma zero_pad_2_inj:
  assumes "0 \<le> a" "a < 100" "0 \<le> b" "b < 100" "zero_pad 2 a = zero_pad 2 b"
  shows "a = b"
  supply str_of_nat.simps [simp del]
proof -
  have d: "''0123456789'' ! (nat a div 10) = ''0123456789'' ! (nat b div 10)"
    and m: "''0123456789'' ! (nat a mod 10) = ''0123456789'' ! (nat b mod 10)"
    using assms(5) zero_pad_2[OF assms(1,2)] zero_pad_2[OF assms(3,4)] by simp_all
  have "nat a div 10 < 10" "nat b div 10 < 10" using assms by simp_all
  then have "nat a div 10 = nat b div 10" using digit_inj d by blast
  moreover have "nat a mod 10 = nat b mod 10" using digit_inj[OF _ _ m] by simp
  ultimately have "nat a = nat b" by (metis div_mult_mod_eq)
  then show ?thesis using assms by simp
qed

lemma zero_pad_2_length: "0 \<le> n \<Longrightarrow> n < 100 \<Longrightarrow> length (zero_pad 2 n) = 2"
  supply str_of_nat.simps [simp del]
  by (simp add: zero_pad_2)

lemma append2_eq:
  "length a = 2 \<Longrightarrow> length b = 2 \<Longrightarrow> (a @ x = b @ y) = (a = b \<and> x = y)"
  by simp

lemma strftime_stamp_inj:
  assumes "valid_stamp_time t" "valid_stamp_time t'" "strftime_stamp t = strftime_stamp t'"
  shows "t = t'"
  supply str_of_nat.simps [simp del]
proof -
  let ?tail = "\<lambda>t. zero_pad 2 (month t) @ zero_pad 2 (day t) @
     zero_pad 2 (hour t) @ zero_pad 2 (minute t) @ zero_pad 2 (second t)"
  from assms(1) have v: "0 \<le> year t" "0 \<le> month t" "month t < 100" "0 \<le> day t" "day t < 100"
    "0 \<le> hour t" "hour t < 100" "0 \<le> minute t" "minute t < 100" "0 \<le> second t" "second t < 100"
    by (simp_all add: valid_stamp_time_def)
  from assms(2) have v': "0 \<le> year t'" "0 \<le> month t'" "month t' < 100" "0 \<le> day t'" "day t' < 100"
    "0 \<le> hour t'" "hour t' < 100" "0 \<le> minute t'" "minute t' < 100" "0 \<le> second t'" "second t' < 100"
    by (simp_all add: valid_stamp_time_def)
  have len: "length (?tail t) = length (?tail t')"
    by (simp add: zero_pad_2_length v v')
  have "str_of_nat (nat (year t)) @ ?tail t = str_of_nat (nat (year t')) @ ?tail t'"
    using assms(3) by (simp add: strftime_stamp_def)
  then have "str_of_nat (nat (year t)) = str_of_nat (nat (year t')) \<and> ?tail t = ?tail t'"
    using append_eq_append_conv[OF disjI2[OF len]] by blast
  then have y: "str_of_nat (nat (year t)) = str_of_nat (nat (year t'))" and tl: "?tail t = ?tail t'"
    by blast+
  have "nat (year t) = nat (year t')" using str_of_nat_inj[OF y] .
  then have 1: "year t = year t'" using v(1) v'(1) by simp
  from tl have z: "zero_pad 2 (month t) = zero_pad 2 (month t')"
    "zero_pad 2 (day t) = zero_pad 2 (day t')"
    "zero_pad 2 (hour t) = zero_pad 2 (hour t')"
    "zero_pad 2 (minute t) = zero_pad 2 (minute t')"
    "zero_pad 2 (second t) = zero_pad 2 (second t')"
    by (simp_all add: append2_eq zero_pad_2_length v v')
  have 2: "month t = month t'" "day t = day t'" "hour t = hour t'" "minute t = minute t'"
    "second t = second t'"
    using z v v' by (simp_all add: zero_pad_2_inj)
  show ?thesis using 1 2 by (intro datetime.equality) simp_all
qed


lemma lst_path_eq_iff:
  assumes "reaches_download envA data startA urlA lvA svA rA" "status_code rA = 200"
    and "reaches_download envB data startB urlB lvB svB rB" "status_code rB = 200"
    and "valid_stamp_time (now envA)" "valid_stamp_time (now envB)"
  shows "response_field (get_lst envA data fs) ''path'' =
           response_field (get_lst envB data fs') ''path'' \<longleftrightarrow> now envA = now envB"
proof -
  from assms(1) have d: "is_double (lat data)" "is_double (lon data)"
    by (simp_all add: reaches_download_def)
  obtain a b where ab: "\<And>t. lst_filename data t =
      Inr (''lst_'' @ py_str_float a @ ''_'' @ py_str_float b @ ''_'' @ strftime_stamp t @ ''.png'')"
    using lst_filename_ok[OF d] by blast
  define pre where "pre = ''lst_'' @ py_str_float a @ ''_'' @ py_str_float b @ ''_''"
  have nm: "\<And>t. lst_filename data t = Inr (pre @ strftime_stamp t @ ''.png'')"
    using ab by (simp add: pre_def)
  from get_lst_success[OF assms(1,2), of fs] nm[of "now envA"]
  have pa: "response_field (get_lst envA data fs) ''path'' =
      Some (JStr (path_join OUTPUT_DIR (pre @ strftime_stamp (now envA) @ ''.png'')))"
    by auto
  from get_lst_success[OF assms(3,4), of fs'] nm[of "now envB"]
  have pb: "response_field (get_lst envB data fs') ''path'' =
      Some (JStr (path_join OUTPUT_DIR (pre @ strftime_stamp (now envB) @ ''.png'')))"
    by auto
  have "response_field (get_lst envA data fs) ''path'' =
           response_field (get_lst envB data fs') ''path'' \<longleftrightarrow>
        strftime_stamp (now envA) = strftime_stamp (now envB)"
    by (simp add: pa pb path_join_def)
  also have "\<dots> \<longleftrightarrow> now envA = now envB"
    using strftime_stamp_inj[OF assms(5,6)] by auto
  finally show ?thesis .
qed

lemma lst_path_written:
  assumes "reaches_download envA data startA urlA lvA svA rA" "status_code rA = 200"
  shows "\<exists>filename. lst_filename data (now envA) = Inr filename \<and>
       response_field (get_lst envA data fs) ''path'' =
         Some (JStr (path_join OUTPUT_DIR filename)) \<and>
       snd (get_lst envA data fs) = fs(path_join OUTPUT_DIR filename \<mapsto> content rA)"
  using get_lst_success[OF assms, of fs] by auto

lemma example_later_reaches:
  "reaches_download example_env_later example_request example_start example_url
     [''LST_Day_1km'' \<mapsto> None] [''surface_solar_radiation_downwards_sum'' \<mapsto> None]
     \<lparr>status_code = 200, content = ''PNG''\<rparr>"
  using example_reaches[of 181 None None 200] sample_ok_None
  by (simp add: reaches_download_def example_env_later_def)

lemma example_stamps:
  "strftime_stamp (now (example_env 181 None None 200)) = ''20261104150509''"
  "strftime_stamp (now example_env_later) = ''20261104150510''"
  "valid_stamp_time (now (example_env 181 None None 200))"
  "valid_stamp_time (now example_env_later)"
  "now (example_env 181 None None 200) \<noteq> now example_env_later"
  by (simp_all add: example_env_def example_env_later_def strftime_stamp_def zero_pad_def
      valid_stamp_time_def)

lemma example_later_run:
  "response_field (get_lst example_env_later example_request fs) ''path'' =
     Some (JStr ''outputs/lst_3.139_101.6869_20261104150510.png'')"
  "snd (get_lst example_env_later example_request fs) =
     fs(''outputs/lst_3.139_101.6869_20261104150510.png'' \<mapsto> ''PNG'')"
proof -
  obtain filename where f: "lst_filename example_request (now example_env_later) = Inr filename"
    and p: "response_field (get_lst example_env_later example_request fs) ''path'' =
         Some (JStr (path_join OUTPUT_DIR filename))"
    and w: "snd (get_lst example_env_later example_request fs) =
         fs(path_join OUTPUT_DIR filename \<mapsto>
            content \<lparr>status_code = 200, content = ''PNG''\<rparr>)"
    using lst_path_written[OF example_later_reaches, of fs] by auto
  have "filename = ''lst_3.139_101.6869_20261104150510.png''"
    using f by (simp add: example_filename example_stamps)
  then show "response_field (get_lst example_env_later example_request fs) ''path'' =
     Some (JStr ''outputs/lst_3.139_101.6869_20261104150510.png'')"
    "snd (get_lst example_env_later example_request fs) =
     fs(''outputs/lst_3.139_101.6869_20261104150510.png'' \<mapsto> ''PNG'')"
    using p w by (simp_all add: path_join_def OUTPUT_DIR_def)
qed

section \<open>The endpoint \<open>get_lst\<close>: claims C3 to C7, C9 and C10\<close>

text \<open>
  Claim C3.  When the temperature collection, filtered to the area of the coordinate and to
  the 200 days before the current UTC time, has size 0, \<open>get_lst\<close> returns exactly the
  object with the one key \<open>error\<close> and the message
  \<open>No valid LST data available for this location/date range.\<close>, and the file system is
  unchanged.
\<close>

theorem get_lst_no_data:
  assumes "minus_days (utcnow env) 200 = Inr start_date"
    and "size_getInfo env (lst_collection (area data) start_date (utcnow env)) = Inr 0"
  shows "get_lst env data fs =
           (Inr (JObj [(''error'', JStr ''No valid LST data available for this location/date range.'')]),
            fs)"
  using assms by (simp add: get_lst_def Let_def)

theorem get_lst_no_data_witness:
  "minus_days (utcnow (example_env 0 None None 200)) 200 = Inr example_start \<and>
   size_getInfo (example_env 0 None None 200)
     (lst_collection (area example_request) example_start (utcnow (example_env 0 None None 200)))
     = Inr 0 \<and>
   get_lst (example_env 0 None None 200) example_request Map.empty =
     (Inr (JObj [(''error'', JStr ''No valid LST data available for this location/date range.'')]),
      Map.empty)"
proof -
  have w: "minus_days (utcnow (example_env 0 None None 200)) 200 = Inr example_start"
    by (rule example_window)
  have s: "size_getInfo (example_env 0 None None 200)
     (lst_collection (area example_request) example_start (utcnow (example_env 0 None None 200)))
     = Inr 0"
    by (simp add: example_env_def)
  show ?thesis using w s get_lst_no_data[OF w s] by simp
qed

text \<open>
  Claim C4.  In every run of \<open>get_lst\<close> that reaches the HTTP GET of the thumbnail URL and
  receives a status code \<open>s\<close> other than 200, the endpoint returns the object with the keys
  \<open>error\<close> and \<open>status\<close>, the latter holding \<open>s\<close>, and the file system is unchanged.
\<close>

theorem get_lst_fetch_failed:
  assumes "reaches_download env data start_date url lst_value srad_value response"
    and "status_code response \<noteq> 200"
  shows "get_lst env data fs =
           (Inr (JObj [(''error'', JStr ''Failed to fetch image''),
                       (''status'', JInt (status_code response))]), fs)"
  using get_lst_reaches[OF assms(1), of fs] assms(2) by (auto simp: lst_download_def)

theorem get_lst_fetch_failed_witness:
  "reaches_download (example_env 181 None (Some (float_lit 15000000)) 404) example_request
     example_start example_url
     [''LST_Day_1km'' \<mapsto> None]
     [''surface_solar_radiation_downwards_sum'' \<mapsto> Some (float_lit 15000000)]
     \<lparr>status_code = 404, content = ''PNG''\<rparr> \<and>
   status_code \<lparr>status_code = 404, content = ''PNG''\<rparr> \<noteq> 200 \<and>
   get_lst (example_env 181 None (Some (float_lit 15000000)) 404) example_request Map.empty =
     (Inr (JObj [(''error'', JStr ''Failed to fetch image''), (''status'', JInt 404)]), Map.empty)"
proof -
  have r: "reaches_download (example_env 181 None (Some (float_lit 15000000)) 404) example_request
     example_start example_url
     [''LST_Day_1km'' \<mapsto> None]
     [''surface_solar_radiation_downwards_sum'' \<mapsto> Some (float_lit 15000000)]
     \<lparr>status_code = 404, content = ''PNG''\<rparr>"
    by (rule example_reaches) (simp_all add: sample_ok_None sample_ok_radiation)
  have s: "status_code \<lparr>status_code = 404, content = ''PNG''\<rparr> \<noteq> 200" by simp
  show ?thesis using r s get_lst_fetch_failed[OF r s, of Map.empty] by simp
qed

text \<open>
  Claim C5, as amended.  In every run of \<open>get_lst\<close> that returns the successful response,
  \<open>lst\<close> and \<open>solar_radiation\<close> are each, independently of the other, null or a float;
  \<open>lst\<close> lies in \<open>-60 .. 60\<close> whenever the sampled temperature does, and
  \<open>solar_radiation\<close> is non-negative whenever the sampled radiation is.
\<close>

theorem lst_response_fields:
  assumes "reaches_download env data start_date url lst_value srad_value response"
    and "status_code response = 200"
  shows "\<exists>l r.
           response_field (get_lst env data fs) ''lst'' = Some l \<and>
           response_field (get_lst env data fs) ''solar_radiation'' = Some r \<and>
           (l = JNull \<or>
            (\<exists>t x. dict_get lst_value ''LST_Day_1km'' = Some t \<and> l = JFloat x \<and>
                   (float_between (- 60) 60 t \<longrightarrow> float_between (- 60) 60 x))) \<and>
           (r = JNull \<or>
            (\<exists>t y. dict_get srad_value ''surface_solar_radiation_downwards_sum'' = Some t \<and>
                   r = JFloat y \<and> (float_nonneg t \<longrightarrow> float_nonneg y)))"
proof -
  have ok: "sample_ok (dict_get lst_value ''LST_Day_1km'')"
    "sample_ok (dict_get srad_value ''surface_solar_radiation_downwards_sum'')"
    using assms(1) by (simp_all add: reaches_download_def)
  obtain l r where f:
    "lst_field (dict_get lst_value ''LST_Day_1km'') = Inr l"
    "solar_field (dict_get srad_value ''surface_solar_radiation_downwards_sum'') = Inr r"
    "response_field (get_lst env data fs) ''lst'' = Some l"
    "response_field (get_lst env data fs) ''solar_radiation'' = Some r"
    using get_lst_fields[OF assms, of fs] by blast
  show ?thesis
    using f(3) f(4) lst_field_cases[OF ok(1) f(1)] solar_field_cases[OF ok(2) f(2)] by blast
qed

theorem lst_response_fields_witness:
  "reaches_download
     (example_env 181 (Some (float_lit (314159 / 10000))) (Some (float_lit 15000000)) 200)
     example_request example_start example_url
     [''LST_Day_1km'' \<mapsto> Some (float_lit (314159 / 10000))]
     [''surface_solar_radiation_downwards_sum'' \<mapsto> Some (float_lit 15000000)]
     \<lparr>status_code = 200, content = ''PNG''\<rparr> \<and>
   status_code \<lparr>status_code = 200, content = ''PNG''\<rparr> = 200 \<and>
   (\<exists>l r.
      response_field
        (get_lst
           (example_env 181 (Some (float_lit (314159 / 10000))) (Some (float_lit 15000000)) 200)
           example_request Map.empty) ''lst'' = Some l \<and>
      response_field
        (get_lst
           (example_env 181 (Some (float_lit (314159 / 10000))) (Some (float_lit 15000000)) 200)
           example_request Map.empty) ''solar_radiation'' = Some r \<and>
      (l = JNull \<or>
       (\<exists>t x. dict_get [''LST_Day_1km'' \<mapsto> Some (float_lit (314159 / 10000))] ''LST_Day_1km''
                = Some t \<and> l = JFloat x \<and>
              (float_between (- 60) 60 t \<longrightarrow> float_between (- 60) 60 x))) \<and>
      (r = JNull \<or>
       (\<exists>t y. dict_get
                [''surface_solar_radiation_downwards_sum'' \<mapsto> Some (float_lit 15000000)]
                ''surface_solar_radiation_downwards_sum'' = Some t \<and>
              r = JFloat y \<and> (float_nonneg t \<longrightarrow> float_nonneg y))))"
proof -
  have s: "status_code \<lparr>status_code = 200, content = ''PNG''\<rparr> = 200" by simp
  show ?thesis
    using warm_reaches s lst_response_fields[OF warm_reaches s, of Map.empty] by blast
qed

text \<open>
  Claim C5 as stated fails, with data in both collections.  When the temperature sample at
  the point is absent and the radiation sample is 15000000.0, \<open>lst\<close> is null while
  \<open>solar_radiation\<close> is the float 15.0.  When the temperature sample is 70.7, \<open>lst\<close> is
  70.7, outside \<open>-60 .. 60\<close>.  When the radiation sample is -2500000.0,
  \<open>solar_radiation\<close> is -2.5.  The endpoint passes on what the service samples.
\<close>

theorem lst_response_counterexample:
  "get_lst (example_env 181 None (Some (float_lit 15000000)) 200) example_request Map.empty =
     (Inr (JObj
        [(''message'', JStr ''LST image saved.''),
         (''path'', JStr example_path),
         (''url'', JStr example_url),
         (''lst'', JNull),
         (''solar_radiation'', JFloat (float_lit 15))]),
      [example_path \<mapsto> ''PNG'']) \<and>
   get_lst (example_env 181 (Some (float_lit (707 / 10))) (Some (float_lit 15000000)) 200)
       example_request Map.empty =
     (Inr (JObj
        [(''message'', JStr ''LST image saved.''),
         (''path'', JStr example_path),
         (''url'', JStr example_url),
         (''lst'', JFloat (float_lit (707 / 10))),
         (''solar_radiation'', JFloat (float_lit 15))]),
      [example_path \<mapsto> ''PNG'']) \<and>
   \<not> float_between (- 60) 60 (float_lit (707 / 10)) \<and>
   get_lst (example_env 181 None (Some (Finite True 2500000)) 200) example_request Map.empty =
     (Inr (JObj
        [(''message'', JStr ''LST image saved.''),
         (''path'', JStr example_path),
         (''url'', JStr example_url),
         (''lst'', JNull),
         (''solar_radiation'', JFloat (Finite True (25 / 10)))]),
      [example_path \<mapsto> ''PNG'']) \<and>
   \<not> float_nonneg (Finite True (25 / 10))"
  by (simp add: example_run sample_ok_None sample_ok_radiation sample_ok_hot sample_ok_negative
      lst_download_def Let_def field_radiation field_hot field_negative hot_out_of_range
      lst_field_None)

text \<open>
  Claim C6.  The temperature raster of \<open>get_lst\<close> starts from the band \<open>LST_Day_1km\<close> of
  the filtered collection and applies exactly these steps in this order: the median across
  time, the multiplication by 0.02, the subtraction of 273.15, the focal mean of radius one
  pixel, and the clip to the area.  This raster is the one the endpoint renders and samples:
  in every run that reaches the download and gets status 200, the field \<open>url\<close> of the
  response is the thumbnail URL that the service returned for this raster, and the field
  \<open>lst\<close> is computed from the sample that the service returned for this raster at the
  point.  Moreover the result of \<open>get_lst\<close> depends on the service's thumbnail and sampling
  answers only for this raster and for the radiation raster.
\<close>

theorem lst_pipeline:
  "image_steps (lst_image (lst_collection a start_date end_date) a) =
     [StepMedian, StepMultiply (float_lit (2 / 100)), StepSubtract (float_lit (27315 / 100)),
      StepFocalMean 1 ''pixels'', StepClip a] \<and>
   image_source (lst_image (lst_collection a start_date end_date) a) =
     Select (lst_collection a start_date end_date) ''LST_Day_1km'' \<and>
   (reaches_download env data start url lst_value srad_value response \<and>
    status_code response = 200 \<longrightarrow>
    getThumbURL env (lst_image (lst_collection (area data) start (utcnow env)) (area data))
      (vis_params (area data)) = Inr url \<and>
    reduceRegion_mean env
      (lst_image (lst_collection (area data) start (utcnow env)) (area data))
      (point data) 1000 = Inr lst_value \<and>
    response_field (get_lst env data fs) ''url'' = Some (JStr url) \<and>
    (\<exists>l. lst_field (dict_get lst_value ''LST_Day_1km'') = Inr l \<and>
         response_field (get_lst env data fs) ''lst'' = Some l)) \<and>
   (minus_days (utcnow env) 200 = Inr start \<and>
    thumb (lst_image (lst_collection (area data) start (utcnow env)) (area data))
      (vis_params (area data)) =
      getThumbURL env (lst_image (lst_collection (area data) start (utcnow env)) (area data))
        (vis_params (area data)) \<and>
    reduce (lst_image (lst_collection (area data) start (utcnow env)) (area data))
      (point data) 1000 =
      reduceRegion_mean env
        (lst_image (lst_collection (area data) start (utcnow env)) (area data))
        (point data) 1000 \<and>
    reduce (solar_image (srad_collection (area data) start (utcnow env)) (area data))
      (point data) 1000 =
      reduceRegion_mean env
        (solar_image (srad_collection (area data) start (utcnow env)) (area data))
        (point data) 1000 \<longrightarrow>
    get_lst (env\<lparr>getThumbURL := thumb, reduceRegion_mean := reduce\<rparr>) data fs =
      get_lst env data fs)"
proof -
  have steps: "image_steps (lst_image (lst_collection a start_date end_date) a) =
     [StepMedian, StepMultiply (float_lit (2 / 100)), StepSubtract (float_lit (27315 / 100)),
      StepFocalMean 1 ''pixels'', StepClip a]"
    by (simp add: lst_image_def raw_lst_def)
  have source: "image_source (lst_image (lst_collection a start_date end_date) a) =
     Select (lst_collection a start_date end_date) ''LST_Day_1km''"
    by (simp add: lst_image_def raw_lst_def)
  have used: "getThumbURL env (lst_image (lst_collection (area data) start (utcnow env)) (area data))
      (vis_params (area data)) = Inr url \<and>
    reduceRegion_mean env
      (lst_image (lst_collection (area data) start (utcnow env)) (area data))
      (point data) 1000 = Inr lst_value \<and>
    response_field (get_lst env data fs) ''url'' = Some (JStr url) \<and>
    (\<exists>l. lst_field (dict_get lst_value ''LST_Day_1km'') = Inr l \<and>
         response_field (get_lst env data fs) ''lst'' = Some l)"
    if r: "reaches_download env data start url lst_value srad_value response \<and>
      status_code response = 200"
  proof -
    from r have r1: "reaches_download env data start url lst_value srad_value response"
      and r2: "status_code response = 200" by simp_all
    from get_lst_success[OF r1 r2, of fs] obtain filename l r where
      l: "lst_field (dict_get lst_value ''LST_Day_1km'') = Inr l"
      and g: "get_lst env data fs =
             (Inr (JObj
                [(''message'', JStr ''LST image saved.''),
                 (''path'', JStr (path_join OUTPUT_DIR filename)),
                 (''url'', JStr url),
                 (''lst'', l),
                 (''solar_radiation'', r)]),
              fs(path_join OUTPUT_DIR filename \<mapsto> content response))"
      by blast
    have u: "response_field (get_lst env data fs) ''url'' = Some (JStr url)"
      and v: "response_field (get_lst env data fs) ''lst'' = Some l"
      by (simp_all add: g)
    from r1 have o: "getThumbURL env
        (lst_image (lst_collection (area data) start (utcnow env)) (area data))
        (vis_params (area data)) = Inr url"
      "reduceRegion_mean env
        (lst_image (lst_collection (area data) start (utcnow env)) (area data))
        (point data) 1000 = Inr lst_value"
      by (simp_all add: reaches_download_def)
    show ?thesis using o u v l by blast
  qed
  have frame: "get_lst (env\<lparr>getThumbURL := thumb, reduceRegion_mean := reduce\<rparr>) data fs =
      get_lst env data fs"
    if "minus_days (utcnow env) 200 = Inr start \<and>
    thumb (lst_image (lst_collection (area data) start (utcnow env)) (area data))
      (vis_params (area data)) =
      getThumbURL env (lst_image (lst_collection (area data) start (utcnow env)) (area data))
        (vis_params (area data)) \<and>
    reduce (lst_image (lst_collection (area data) start (utcnow env)) (area data))
      (point data) 1000 =
      reduceRegion_mean env
        (lst_image (lst_collection (area data) start (utcnow env)) (area data))
        (point data) 1000 \<and>
    reduce (solar_image (srad_collection (area data) start (utcnow env)) (area data))
      (point data) 1000 =
      reduceRegion_mean env
        (solar_image (srad_collection (area data) start (utcnow env)) (area data))
        (point data) 1000"
    using that lst_fetch_frame[of thumb data start "utcnow env" env reduce fs]
    by (simp add: get_lst_def Let_def split: sum.splits)
  show ?thesis using steps source used frame by blast
qed

theorem lst_pipeline_witness:
  "image_steps
     (lst_image
        (lst_collection (area example_request) example_start (utcnow example_strict_env))
        (area example_request)) =
     [StepMedian, StepMultiply (float_lit (2 / 100)), StepSubtract (float_lit (27315 / 100)),
      StepFocalMean 1 ''pixels'', StepClip (area example_request)] \<and>
   reaches_download example_strict_env example_request example_start example_url
     [''LST_Day_1km'' \<mapsto> Some (float_lit (314159 / 10000))]
     [''surface_solar_radiation_downwards_sum'' \<mapsto> Some (float_lit 15000000)]
     \<lparr>status_code = 200, content = ''PNG''\<rparr> \<and>
   status_code \<lparr>status_code = 200, content = ''PNG''\<rparr> = 200 \<and>
   example_thumb
     (raw_lst (lst_collection (area example_request) example_start
        (utcnow example_strict_env)))
     (vis_params (area example_request)) = Inl EEException \<and>
   example_sample
     (raw_lst (lst_collection (area example_request) example_start
        (utcnow example_strict_env)))
     (point example_request) 1000 = Inl EEException \<and>
   example_sample
     (Clip (raw_lst (lst_collection (area example_request) example_start
        (utcnow example_strict_env))) (area example_request))
     (point example_request) 1000 = Inl EEException \<and>
   response_field (get_lst example_strict_env example_request Map.empty) ''url'' =
     Some (JStr example_url) \<and>
   response_field (get_lst example_strict_env example_request Map.empty) ''lst'' =
     Some (JFloat (float_lit (3142 / 100))) \<and>
   minus_days
     (utcnow (example_env 181 (Some (float_lit (314159 / 10000)))
        (Some (float_lit 15000000)) 200)) 200 = Inr example_start \<and>
   get_lst example_strict_env example_request Map.empty =
     get_lst (example_env 181 (Some (float_lit (314159 / 10000)))
        (Some (float_lit 15000000)) 200) example_request Map.empty"
proof -
  let ?warm = "Some (float_lit (314159 / 10000))"
  let ?rad = "Some (float_lit 15000000)"
  let ?env = "example_env 181 ?warm ?rad 200"
  let ?resp = "\<lparr>status_code = 200, content = ''PNG''\<rparr>"
  note t1 = lst_pipeline[of "area example_request" example_start "utcnow example_strict_env"
      example_strict_env example_request example_start example_url
      "[''LST_Day_1km'' \<mapsto> ?warm]"
      "[''surface_solar_radiation_downwards_sum'' \<mapsto> ?rad]" ?resp Map.empty]
  note t2 = lst_pipeline[of "area example_request" example_start "utcnow example_strict_env"
      ?env example_request example_start example_url
      "[''LST_Day_1km'' \<mapsto> ?warm]"
      "[''surface_solar_radiation_downwards_sum'' \<mapsto> ?rad]" ?resp Map.empty
      example_thumb example_sample]
  have s: "status_code ?resp = 200" by simp
  have steps: "image_steps
     (lst_image
        (lst_collection (area example_request) example_start (utcnow example_strict_env))
        (area example_request)) =
     [StepMedian, StepMultiply (float_lit (2 / 100)), StepSubtract (float_lit (27315 / 100)),
      StepFocalMean 1 ''pixels'', StepClip (area example_request)]"
    using t1 by blast
  have u: "response_field (get_lst example_strict_env example_request Map.empty) ''url'' =
     Some (JStr example_url)"
    using t1 example_strict_reaches s by blast
  obtain l where l: "lst_field (dict_get [''LST_Day_1km'' \<mapsto> ?warm] ''LST_Day_1km'') = Inr l"
    and f: "response_field (get_lst example_strict_env example_request Map.empty) ''lst'' = Some l"
    using t1 example_strict_reaches s by blast
  have "l = JFloat (float_lit (3142 / 100))"
    using l by (simp add: dict_get_def field_warm_json)
  then have v: "response_field (get_lst example_strict_env example_request Map.empty) ''lst'' =
     Some (JFloat (float_lit (3142 / 100)))"
    using f by simp
  have w: "minus_days (utcnow ?env) 200 = Inr example_start" by (rule example_window)
  have eq: "get_lst (?env\<lparr>getThumbURL := example_thumb, reduceRegion_mean := example_sample\<rparr>)
      example_request Map.empty = get_lst ?env example_request Map.empty"
    using t2 w example_strict_oracles by blast
  then have eq': "get_lst example_strict_env example_request Map.empty =
     get_lst ?env example_request Map.empty"
    by (simp add: example_strict_env_def)
  show ?thesis
    using steps example_strict_reaches s example_strict_raises u v w eq' by blast
qed

text \<open>
  Claim C7.  The only size that \<open>get_lst\<close> asks the service for is the size of the
  temperature collection: the result is the same under every two size answers that agree
  on that one collection, whatever they report for the others, the radiation collection
  before and after the band selection included.  A reported size of zero for the
  temperature collection ends the run with the no-data error.
\<close>

theorem radiation_size_unchecked:
  "((\<forall>start. minus_days (utcnow env) 200 = Inr start \<longrightarrow>
       sz (lst_collection (area data) start (utcnow env)) =
         size_getInfo env (lst_collection (area data) start (utcnow env))) \<longrightarrow>
    get_lst (env\<lparr>size_getInfo := sz\<rparr>) data fs = get_lst env data fs) \<and>
   (minus_days (utcnow env) 200 = Inr start_date \<longrightarrow>
    get_lst
      (env\<lparr>size_getInfo :=
         (size_getInfo env)(lst_collection (area data) start_date (utcnow env) := Inr 0)\<rparr>)
      data fs =
      (Inr (JObj [(''error'', JStr ''No valid LST data available for this location/date range.'')]),
       fs)) \<and>
   get_lst (env\<lparr>size_getInfo := (size_getInfo env)(srad_collection a s e := n)\<rparr>) data fs =
     get_lst env data fs"
proof (intro conjI impI)
  have frame: "\<And>start. lst_fetch (env\<lparr>size_getInfo := sz\<rparr>) data start (utcnow env) fs =
      lst_fetch env data start (utcnow env) fs"
    by (simp add: lst_fetch_def Let_def cong: sum.case_cong)
  assume a: "\<forall>start. minus_days (utcnow env) 200 = Inr start \<longrightarrow>
       sz (lst_collection (area data) start (utcnow env)) =
         size_getInfo env (lst_collection (area data) start (utcnow env))"
  show "get_lst (env\<lparr>size_getInfo := sz\<rparr>) data fs = get_lst env data fs"
  proof (cases "minus_days (utcnow env) 200")
    case (Inl x)
    then show ?thesis by (simp add: get_lst_def Let_def)
  next
    case (Inr start)
    then have "sz (lst_collection (area data) start (utcnow env)) =
         size_getInfo env (lst_collection (area data) start (utcnow env))"
      using a by blast
    then show ?thesis using Inr frame[of start]
      by (simp add: get_lst_def Let_def split: sum.splits)
  qed
next
  assume "minus_days (utcnow env) 200 = Inr start_date"
  then show "get_lst
      (env\<lparr>size_getInfo :=
         (size_getInfo env)(lst_collection (area data) start_date (utcnow env) := Inr 0)\<rparr>)
      data fs =
      (Inr (JObj [(''error'', JStr ''No valid LST data available for this location/date range.'')]),
       fs)"
    by (simp add: get_lst_def Let_def)
next
  show "get_lst (env\<lparr>size_getInfo := (size_getInfo env)(srad_collection a s e := n)\<rparr>) data fs =
     get_lst env data fs"
    by (simp add: get_lst_def lst_fetch_def Let_def srad_collection_def lst_collection_def
        split: sum.splits)
qed

theorem radiation_size_unchecked_witness:
  "minus_days (utcnow (example_env 181 None (Some (float_lit 15000000)) 200)) 200
     = Inr example_start \<and>
   example_size
     (lst_collection (area example_request) example_start
        (utcnow (example_env 181 None (Some (float_lit 15000000)) 200))) =
   size_getInfo (example_env 181 None (Some (float_lit 15000000)) 200)
     (lst_collection (area example_request) example_start
        (utcnow (example_env 181 None (Some (float_lit 15000000)) 200))) \<and>
   example_size
     (srad_collection (area example_request) example_start
        (utcnow (example_env 181 None (Some (float_lit 15000000)) 200))) = Inr 0 \<and>
   example_size
     (FilterDate (FilterBounds (ImageCollection ''ECMWF/ERA5_LAND/DAILY_AGGR'')
        (area example_request))
        (strftime_date example_start)
        (strftime_date (utcnow (example_env 181 None (Some (float_lit 15000000)) 200)))) = Inr 0 \<and>
   get_lst
     ((example_env 181 None (Some (float_lit 15000000)) 200)\<lparr>size_getInfo := example_size\<rparr>)
     example_request Map.empty =
     get_lst (example_env 181 None (Some (float_lit 15000000)) 200) example_request Map.empty \<and>
   response_field
     (get_lst
        ((example_env 181 None (Some (float_lit 15000000)) 200)\<lparr>size_getInfo := example_size\<rparr>)
        example_request Map.empty) ''solar_radiation'' = Some (JFloat (float_lit 15)) \<and>
   get_lst
     ((example_env 181 None (Some (float_lit 15000000)) 200)
        \<lparr>size_getInfo :=
           (size_getInfo (example_env 181 None (Some (float_lit 15000000)) 200))
             (lst_collection (area example_request) example_start
                (utcnow (example_env 181 None (Some (float_lit 15000000)) 200)) := Inr 0)\<rparr>)
     example_request Map.empty =
     (Inr (JObj [(''error'', JStr ''No valid LST data available for this location/date range.'')]),
      Map.empty)"
proof -
  let ?env = "example_env 181 None (Some (float_lit 15000000)) 200"
  have w: "minus_days (utcnow ?env) 200 = Inr example_start" by (rule example_window)
  have h: "\<forall>start. minus_days (utcnow ?env) 200 = Inr start \<longrightarrow>
       example_size (lst_collection (area example_request) start (utcnow ?env)) =
         size_getInfo ?env (lst_collection (area example_request) start (utcnow ?env))"
    by (simp add: w example_size_values(1))
  note t = radiation_size_unchecked[of ?env example_size example_request Map.empty example_start]
  have eq: "get_lst (?env\<lparr>size_getInfo := example_size\<rparr>) example_request Map.empty =
     get_lst ?env example_request Map.empty"
    using t h by blast
  have r: "response_field (get_lst ?env example_request Map.empty) ''solar_radiation''
      = Some (JFloat (float_lit 15))"
    by (rule example_fields(2)[OF _ sample_ok_None sample_ok_radiation lst_field_None
          field_radiation]) simp
  show ?thesis using w example_size_values eq r t by simp
qed

text \<open>
  Claim C9.  In the successful response of \<open>get_lst\<close>, the field \<open>lst\<close> is null exactly
  when the temperature sample is false in Python's sense, that is absent or equal to zero,
  and the field \<open>solar_radiation\<close> is null exactly when the radiation sample is: each
  field depends on its own sample only.
\<close>

theorem falsy_sample_is_null:
  assumes "reaches_download env data start_date url lst_value srad_value response"
    and "status_code response = 200"
  shows "(response_field (get_lst env data fs) ''lst'' = Some JNull \<longleftrightarrow>
            falsy (dict_get lst_value ''LST_Day_1km'')) \<and>
         (response_field (get_lst env data fs) ''solar_radiation'' = Some JNull \<longleftrightarrow>
            falsy (dict_get srad_value ''surface_solar_radiation_downwards_sum''))"
proof -
  have ok: "sample_ok (dict_get lst_value ''LST_Day_1km'')"
    using assms(1) by (simp add: reaches_download_def)
  obtain l r where f:
    "lst_field (dict_get lst_value ''LST_Day_1km'') = Inr l"
    "solar_field (dict_get srad_value ''surface_solar_radiation_downwards_sum'') = Inr r"
    "response_field (get_lst env data fs) ''lst'' = Some l"
    "response_field (get_lst env data fs) ''solar_radiation'' = Some r"
    using get_lst_fields[OF assms, of fs] by blast
  show ?thesis
    using f(3) f(4) lst_field_null_iff[OF ok f(1)] solar_field_null_iff[OF f(2)] by simp
qed

theorem falsy_sample_is_null_witness:
  "reaches_download (example_env 181 (Some (Finite False 0)) (Some (float_lit 15000000)) 200)
     example_request example_start example_url
     [''LST_Day_1km'' \<mapsto> Some (Finite False 0)]
     [''surface_solar_radiation_downwards_sum'' \<mapsto> Some (float_lit 15000000)]
     \<lparr>status_code = 200, content = ''PNG''\<rparr> \<and>
   falsy (dict_get [''LST_Day_1km'' \<mapsto> Some (Finite False 0)] ''LST_Day_1km'') \<and>
   \<not> falsy (dict_get [''surface_solar_radiation_downwards_sum'' \<mapsto> Some (float_lit 15000000)]
     ''surface_solar_radiation_downwards_sum'') \<and>
   response_field
     (get_lst (example_env 181 (Some (Finite False 0)) (Some (float_lit 15000000)) 200)
        example_request Map.empty) ''lst'' = Some JNull \<and>
   response_field
     (get_lst (example_env 181 (Some (Finite False 0)) (Some (float_lit 15000000)) 200)
        example_request Map.empty) ''solar_radiation'' = Some (JFloat (float_lit 15)) \<and>
   response_field
     (get_lst (example_env 181 (Some (Finite False 0)) (Some (float_lit 15000000)) 200)
        example_request Map.empty) ''solar_radiation'' \<noteq> Some JNull \<and>
   reaches_download
     (example_env 181 (Some (float_lit (314159 / 10000))) (Some (Finite False 0)) 200)
     example_request example_start example_url
     [''LST_Day_1km'' \<mapsto> Some (float_lit (314159 / 10000))]
     [''surface_solar_radiation_downwards_sum'' \<mapsto> Some (Finite False 0)]
     \<lparr>status_code = 200, content = ''PNG''\<rparr> \<and>
   falsy (dict_get [''surface_solar_radiation_downwards_sum'' \<mapsto> Some (Finite False 0)]
     ''surface_solar_radiation_downwards_sum'') \<and>
   \<not> falsy (dict_get [''LST_Day_1km'' \<mapsto> Some (float_lit (314159 / 10000))] ''LST_Day_1km'') \<and>
   response_field
     (get_lst (example_env 181 (Some (float_lit (314159 / 10000))) (Some (Finite False 0)) 200)
        example_request Map.empty) ''solar_radiation'' = Some JNull \<and>
   response_field
     (get_lst (example_env 181 (Some (float_lit (314159 / 10000))) (Some (Finite False 0)) 200)
        example_request Map.empty) ''lst'' = Some (JFloat (float_lit (3142 / 100))) \<and>
   response_field
     (get_lst (example_env 181 (Some (float_lit (314159 / 10000))) (Some (Finite False 0)) 200)
        example_request Map.empty) ''lst'' \<noteq> Some JNull"
proof -
  have s: "status_code \<lparr>status_code = 200, content = ''PNG''\<rparr> = 200" by simp
  have f1: "falsy (dict_get [''LST_Day_1km'' \<mapsto> Some (Finite False 0)] ''LST_Day_1km'')"
    by (simp add: dict_get_def zero_falsy)
  have f2: "falsy (dict_get [''surface_solar_radiation_downwards_sum'' \<mapsto> Some (Finite False 0)]
     ''surface_solar_radiation_downwards_sum'')"
    by (simp add: dict_get_def zero_falsy)
  have n1: "\<not> falsy (dict_get
     [''surface_solar_radiation_downwards_sum'' \<mapsto> Some (float_lit 15000000)]
     ''surface_solar_radiation_downwards_sum'')"
    by (simp add: dict_get_def not_falsy_examples)
  have n2: "\<not> falsy (dict_get [''LST_Day_1km'' \<mapsto> Some (float_lit (314159 / 10000))]
     ''LST_Day_1km'')"
    by (simp add: dict_get_def not_falsy_examples)
  have c: "response_field
     (get_lst (example_env 181 (Some (Finite False 0)) (Some (float_lit 15000000)) 200)
        example_request Map.empty) ''solar_radiation'' = Some (JFloat (float_lit 15))"
    by (rule example_fields(2)[OF _ sample_ok_zero sample_ok_radiation field_zero(1)
          field_radiation]) simp
  have d: "response_field
     (get_lst (example_env 181 (Some (float_lit (314159 / 10000))) (Some (Finite False 0)) 200)
        example_request Map.empty) ''lst'' = Some (JFloat (float_lit (3142 / 100)))"
    by (rule example_fields(1)[OF _ sample_ok_warm sample_ok_zero field_warm_json
          field_zero(2)]) simp
  show ?thesis
    using cold_reaches dark_reaches f1 f2 n1 n2 c d
      falsy_sample_is_null[OF cold_reaches s, of Map.empty]
      falsy_sample_is_null[OF dark_reaches s, of Map.empty]
    by simp
qed

text \<open>
  Claim C10.  In the successful response of \<open>get_lst\<close>, a temperature sample that is
  not false is reported rounded to two decimals, with no scaling, and a radiation sample
  that is not false is reported divided by \<open>1_000_000\<close> and then rounded to two decimals.
  The division is no step of the radiation raster, whose steps are the mean across time
  and the clip to the area.
\<close>

theorem sample_scaling:
  assumes "reaches_download env data start_date url lst_value srad_value response"
    and "status_code response = 200"
  shows "(\<forall>x. dict_get lst_value ''LST_Day_1km'' = Some x \<and> py_bool x \<longrightarrow>
            (\<exists>r. py_round x 2 = Inr r \<and>
                 response_field (get_lst env data fs) ''lst'' = Some (JFloat r))) \<and>
         (\<forall>y. dict_get srad_value ''surface_solar_radiation_downwards_sum'' = Some y \<and> py_bool y \<longrightarrow>
            (\<exists>w r. py_div_float_int y 1000000 = Inr w \<and> py_round w 2 = Inr r \<and>
                 response_field (get_lst env data fs) ''solar_radiation'' = Some (JFloat r))) \<and>
         image_steps (solar_image (srad_collection (area data) start_date (utcnow env)) (area data))
           = [StepMean, StepClip (area data)]"
proof (intro conjI allI impI)
  fix x assume a: "dict_get lst_value ''LST_Day_1km'' = Some x \<and> py_bool x"
  have "sample_ok (dict_get lst_value ''LST_Day_1km'')"
    using assms(1) by (simp add: reaches_download_def)
  then have d: "is_double x" using a by (simp add: sample_ok_def)
  from lst_field_truthy[OF _ d] a obtain r where
    r: "py_round x 2 = Inr r" "lst_field (Some x) = Inr (JFloat r)" by blast
  then show "\<exists>r. py_round x 2 = Inr r \<and>
                 response_field (get_lst env data fs) ''lst'' = Some (JFloat r)"
    using get_lst_fields[OF assms, of fs] a by auto
next
  fix y assume a: "dict_get srad_value ''surface_solar_radiation_downwards_sum'' = Some y \<and> py_bool y"
  from solar_field_truthy a obtain w r where
    r: "py_div_float_int y 1000000 = Inr w" "py_round w 2 = Inr r"
       "solar_field (Some y) = Inr (JFloat r)" by blast
  then show "\<exists>w r. py_div_float_int y 1000000 = Inr w \<and> py_round w 2 = Inr r \<and>
                 response_field (get_lst env data fs) ''solar_radiation'' = Some (JFloat r)"
    using get_lst_fields[OF assms, of fs] a by auto
next
  show "image_steps (solar_image (srad_collection (area data) start_date (utcnow env)) (area data))
           = [StepMean, StepClip (area data)]"
    by (simp add: solar_image_def)
qed

theorem sample_scaling_witness:
  "reaches_download
     (example_env 181 (Some (float_lit (314159 / 10000))) (Some (float_lit 15000000)) 200)
     example_request example_start example_url
     [''LST_Day_1km'' \<mapsto> Some (float_lit (314159 / 10000))]
     [''surface_solar_radiation_downwards_sum'' \<mapsto> Some (float_lit 15000000)]
     \<lparr>status_code = 200, content = ''PNG''\<rparr> \<and>
   py_bool (float_lit (314159 / 10000)) \<and> py_bool (float_lit 15000000) \<and>
   py_round (float_lit (314159 / 10000)) 2 = Inr (float_lit (3142 / 100)) \<and>
   response_field
     (get_lst
        (example_env 181 (Some (float_lit (314159 / 10000))) (Some (float_lit 15000000)) 200)
        example_request Map.empty) ''lst'' = Some (JFloat (float_lit (3142 / 100))) \<and>
   py_div_float_int (float_lit 15000000) 1000000 = Inr (float_lit 15) \<and>
   py_round (float_lit 15) 2 = Inr (float_lit 15) \<and>
   response_field
     (get_lst
        (example_env 181 (Some (float_lit (314159 / 10000))) (Some (float_lit 15000000)) 200)
        example_request Map.empty) ''solar_radiation'' = Some (JFloat (float_lit 15)) \<and>
   image_steps
     (solar_image
        (srad_collection (area example_request) example_start
           (utcnow
              (example_env 181 (Some (float_lit (314159 / 10000))) (Some (float_lit 15000000)) 200)))
        (area example_request))
     = [StepMean, StepClip (area example_request)]"
proof -
  have s: "status_code \<lparr>status_code = 200, content = ''PNG''\<rparr> = 200" by simp
  have d1: "dict_get [''LST_Day_1km'' \<mapsto> Some (float_lit (314159 / 10000))] ''LST_Day_1km''
      = Some (float_lit (314159 / 10000))"
    by (simp add: dict_get_def)
  have d2: "dict_get [''surface_solar_radiation_downwards_sum'' \<mapsto> Some (float_lit 15000000)]
      ''surface_solar_radiation_downwards_sum'' = Some (float_lit 15000000)"
    by (simp add: dict_get_def)
  from sample_scaling[OF warm_reaches s, of Map.empty] d1 d2 warm_truthy radiation_truthy
  have "(\<exists>r. py_round (float_lit (314159 / 10000)) 2 = Inr r \<and>
          response_field
            (get_lst
               (example_env 181 (Some (float_lit (314159 / 10000))) (Some (float_lit 15000000)) 200)
               example_request Map.empty) ''lst'' = Some (JFloat r))"
    and "(\<exists>w r. py_div_float_int (float_lit 15000000) 1000000 = Inr w \<and> py_round w 2 = Inr r \<and>
          response_field
            (get_lst
               (example_env 181 (Some (float_lit (314159 / 10000))) (Some (float_lit 15000000)) 200)
               example_request Map.empty) ''solar_radiation'' = Some (JFloat r))"
    and "image_steps
     (solar_image
        (srad_collection (area example_request) example_start
           (utcnow
              (example_env 181 (Some (float_lit (314159 / 10000))) (Some (float_lit 15000000)) 200)))
        (area example_request))
     = [StepMean, StepClip (area example_request)]"
    by blast+
  then show ?thesis
    using warm_reaches warm_truthy radiation_truthy field_warm radiation_scaled by auto
qed

section \<open>The map image endpoints: claim C8\<close>

text \<open>
  Claim C8.  The file that \<open>get_street_view\<close> writes, and the one that \<open>get_hybrid_map\<close>
  writes, is named by a function of the coordinate alone: for every two environments and
  every file system, two successful calls for the same coordinate report the same path, and
  after the second call the file holds the bytes of the second download.  The file name of
  \<open>get_lst\<close> has the formatted local time before its extension; a successful run reports
  the path made of \<open>OUTPUT_DIR\<close> and this name and writes the download there; and two
  successful runs for the same coordinate report the same path exactly when their local
  times agree to the second.
\<close>

theorem map_filenames_collide:
  assumes "fetched env1 (street_view_url env1 loc) s1"
    and "fetched env2 (street_view_url env2 loc) s2"
    and "fetched env1 (hybrid_url env1 loc) h1"
    and "fetched env2 (hybrid_url env2 loc) h2"
    and "is_double (lat data)" and "is_double (lon data)"
  shows "response_field (get_street_view env1 loc fs) ''file_path'' =
           Some (JStr (path_join SAVE_DIR (street_view_filename loc))) \<and>
         response_field (get_street_view env2 loc (snd (get_street_view env1 loc fs))) ''file_path'' =
           Some (JStr (path_join SAVE_DIR (street_view_filename loc))) \<and>
         snd (get_street_view env1 loc fs) =
           fs(path_join SAVE_DIR (street_view_filename loc) \<mapsto> content s1) \<and>
         snd (get_street_view env2 loc (snd (get_street_view env1 loc fs))) =
           fs(path_join SAVE_DIR (street_view_filename loc) \<mapsto> content s2) \<and>
         response_field (get_hybrid_map env1 loc fs) ''file_path'' =
           Some (JStr (path_join SAVE_DIR (hybrid_map_filename loc))) \<and>
         response_field (get_hybrid_map env2 loc (snd (get_hybrid_map env1 loc fs))) ''file_path'' =
           Some (JStr (path_join SAVE_DIR (hybrid_map_filename loc))) \<and>
         snd (get_hybrid_map env1 loc fs) =
           fs(path_join SAVE_DIR (hybrid_map_filename loc) \<mapsto> content h1) \<and>
         snd (get_hybrid_map env2 loc (snd (get_hybrid_map env1 loc fs))) =
           fs(path_join SAVE_DIR (hybrid_map_filename loc) \<mapsto> content h2) \<and>
         (\<exists>pre. \<forall>t. lst_filename data t = Inr (pre @ strftime_stamp t @ ''.png'')) \<and>
         (reaches_download envA data startA urlA lvA svA rA \<and> status_code rA = 200 \<longrightarrow>
          (\<exists>filename. lst_filename data (now envA) = Inr filename \<and>
             response_field (get_lst envA data fs) ''path'' =
               Some (JStr (path_join OUTPUT_DIR filename)) \<and>
             snd (get_lst envA data fs) =
               fs(path_join OUTPUT_DIR filename \<mapsto> content rA))) \<and>
         (reaches_download envA data startA urlA lvA svA rA \<and> status_code rA = 200 \<and>
          reaches_download envB data startB urlB lvB svB rB \<and> status_code rB = 200 \<and>
          valid_stamp_time (now envA) \<and> valid_stamp_time (now envB) \<longrightarrow>
          (response_field (get_lst envA data fs) ''path'' =
             response_field (get_lst envB data (snd (get_lst envA data fs))) ''path'' \<longleftrightarrow>
           now envA = now envB))"
proof -
  have sv: "\<And>g. get_street_view env1 loc g =
      (Inr (JObj
         [(''message'', JStr ''Street View image saved''),
          (''file_path'', JStr (path_join SAVE_DIR (street_view_filename loc)))]),
       g(path_join SAVE_DIR (street_view_filename loc) \<mapsto> content s1))"
    "\<And>g. get_street_view env2 loc g =
      (Inr (JObj
         [(''message'', JStr ''Street View image saved''),
          (''file_path'', JStr (path_join SAVE_DIR (street_view_filename loc)))]),
       g(path_join SAVE_DIR (street_view_filename loc) \<mapsto> content s2))"
    using street_view_saved[OF assms(1)] street_view_saved[OF assms(2)] by blast+
  have hy: "\<And>g. get_hybrid_map env1 loc g =
      (Inr (JObj
         [(''message'', JStr ''Hybrid satellite image saved''),
          (''file_path'', JStr (path_join SAVE_DIR (hybrid_map_filename loc)))]),
       g(path_join SAVE_DIR (hybrid_map_filename loc) \<mapsto> content h1))"
    "\<And>g. get_hybrid_map env2 loc g =
      (Inr (JObj
         [(''message'', JStr ''Hybrid satellite image saved''),
          (''file_path'', JStr (path_join SAVE_DIR (hybrid_map_filename loc)))]),
       g(path_join SAVE_DIR (hybrid_map_filename loc) \<mapsto> content h2))"
    using hybrid_map_saved[OF assms(3)] hybrid_map_saved[OF assms(4)] by blast+
  obtain a b where ab: "\<forall>t. lst_filename data t =
      Inr (''lst_'' @ py_str_float a @ ''_'' @ py_str_float b @ ''_'' @ strftime_stamp t @ ''.png'')"
    using lst_filename_ok[OF assms(5) assms(6)] by blast
  define pre where "pre = ''lst_'' @ py_str_float a @ ''_'' @ py_str_float b @ ''_''"
  have "\<forall>t. lst_filename data t = Inr (pre @ strftime_stamp t @ ''.png'')"
    using ab by (simp add: pre_def)
  then have ts: "\<exists>pre. \<forall>t. lst_filename data t = Inr (pre @ strftime_stamp t @ ''.png'')"
    by (rule exI[of _ pre])
  have wr: "reaches_download envA data startA urlA lvA svA rA \<and> status_code rA = 200 \<longrightarrow>
          (\<exists>filename. lst_filename data (now envA) = Inr filename \<and>
             response_field (get_lst envA data fs) ''path'' =
               Some (JStr (path_join OUTPUT_DIR filename)) \<and>
             snd (get_lst envA data fs) =
               fs(path_join OUTPUT_DIR filename \<mapsto> content rA))"
    using lst_path_written[of envA data startA urlA lvA svA rA fs] by blast
  have df: "reaches_download envA data startA urlA lvA svA rA \<and> status_code rA = 200 \<and>
          reaches_download envB data startB urlB lvB svB rB \<and> status_code rB = 200 \<and>
          valid_stamp_time (now envA) \<and> valid_stamp_time (now envB) \<longrightarrow>
          (response_field (get_lst envA data fs) ''path'' =
             response_field (get_lst envB data (snd (get_lst envA data fs))) ''path'' \<longleftrightarrow>
           now envA = now envB)"
    using lst_path_eq_iff[of envA data startA urlA lvA svA rA envB startB urlB lvB svB rB fs
        "snd (get_lst envA data fs)"] by blast
  have mp: "response_field (get_street_view env1 loc fs) ''file_path'' =
           Some (JStr (path_join SAVE_DIR (street_view_filename loc))) \<and>
         response_field (get_street_view env2 loc (snd (get_street_view env1 loc fs))) ''file_path'' =
           Some (JStr (path_join SAVE_DIR (street_view_filename loc))) \<and>
         snd (get_street_view env1 loc fs) =
           fs(path_join SAVE_DIR (street_view_filename loc) \<mapsto> content s1) \<and>
         snd (get_street_view env2 loc (snd (get_street_view env1 loc fs))) =
           fs(path_join SAVE_DIR (street_view_filename loc) \<mapsto> content s2) \<and>
         response_field (get_hybrid_map env1 loc fs) ''file_path'' =
           Some (JStr (path_join SAVE_DIR (hybrid_map_filename loc))) \<and>
         response_field (get_hybrid_map env2 loc (snd (get_hybrid_map env1 loc fs))) ''file_path'' =
           Some (JStr (path_join SAVE_DIR (hybrid_map_filename loc))) \<and>
         snd (get_hybrid_map env1 loc fs) =
           fs(path_join SAVE_DIR (hybrid_map_filename loc) \<mapsto> content h1) \<and>
         snd (get_hybrid_map env2 loc (snd (get_hybrid_map env1 loc fs))) =
           fs(path_join SAVE_DIR (hybrid_map_filename loc) \<mapsto> content h2)"
    by (simp add: sv hy)
  show ?thesis using mp ts wr df by blast
qed

theorem map_filenames_collide_witness:
  "fetched (example_env 181 None None 200)
     (street_view_url (example_env 181 None None 200) example_location)
     \<lparr>status_code = 200, content = ''PNG''\<rparr> \<and>
   fetched example_env2 (street_view_url example_env2 example_location)
     \<lparr>status_code = 200, content = ''JPEG''\<rparr> \<and>
   fetched (example_env 181 None None 200)
     (hybrid_url (example_env 181 None None 200) example_location)
     \<lparr>status_code = 200, content = ''PNG''\<rparr> \<and>
   fetched example_env2 (hybrid_url example_env2 example_location)
     \<lparr>status_code = 200, content = ''JPEG''\<rparr> \<and>
   is_double (lat example_request) \<and> is_double (lon example_request) \<and>
   path_join SAVE_DIR (street_view_filename example_location) =
     ''static/maps/streetview_3_139_101_6869.jpg'' \<and>
   path_join SAVE_DIR (hybrid_map_filename example_location) =
     ''static/maps/hybridmap_3_139_101_6869.jpg'' \<and>
   response_field (get_street_view (example_env 181 None None 200) example_location Map.empty)
     ''file_path'' = Some (JStr (path_join SAVE_DIR (street_view_filename example_location))) \<and>
   response_field
     (get_street_view example_env2 example_location
        (snd (get_street_view (example_env 181 None None 200) example_location Map.empty)))
     ''file_path'' = Some (JStr (path_join SAVE_DIR (street_view_filename example_location))) \<and>
   snd (get_street_view (example_env 181 None None 200) example_location Map.empty) =
     [path_join SAVE_DIR (street_view_filename example_location) \<mapsto>
        content \<lparr>status_code = 200, content = ''PNG''\<rparr>] \<and>
   snd (get_street_view example_env2 example_location
          (snd (get_street_view (example_env 181 None None 200) example_location Map.empty))) =
     [path_join SAVE_DIR (street_view_filename example_location) \<mapsto>
        content \<lparr>status_code = 200, content = ''JPEG''\<rparr>] \<and>
   response_field (get_hybrid_map (example_env 181 None None 200) example_location Map.empty)
     ''file_path'' = Some (JStr (path_join SAVE_DIR (hybrid_map_filename example_location))) \<and>
   response_field
     (get_hybrid_map example_env2 example_location
        (snd (get_hybrid_map (example_env 181 None None 200) example_location Map.empty)))
     ''file_path'' = Some (JStr (path_join SAVE_DIR (hybrid_map_filename example_location))) \<and>
   snd (get_hybrid_map (example_env 181 None None 200) example_location Map.empty) =
     [path_join SAVE_DIR (hybrid_map_filename example_location) \<mapsto>
        content \<lparr>status_code = 200, content = ''PNG''\<rparr>] \<and>
   snd (get_hybrid_map example_env2 example_location
          (snd (get_hybrid_map (example_env 181 None None 200) example_location Map.empty))) =
     [path_join SAVE_DIR (hybrid_map_filename example_location) \<mapsto>
        content \<lparr>status_code = 200, content = ''JPEG''\<rparr>] \<and>
   (\<exists>pre. \<forall>t. lst_filename example_request t = Inr (pre @ strftime_stamp t @ ''.png'')) \<and>
   reaches_download (example_env 181 None None 200) example_request example_start example_url
     [''LST_Day_1km'' \<mapsto> None] [''surface_solar_radiation_downwards_sum'' \<mapsto> None]
     \<lparr>status_code = 200, content = ''PNG''\<rparr> \<and>
   reaches_download example_env_later example_request example_start example_url
     [''LST_Day_1km'' \<mapsto> None] [''surface_solar_radiation_downwards_sum'' \<mapsto> None]
     \<lparr>status_code = 200, content = ''PNG''\<rparr> \<and>
   status_code \<lparr>status_code = 200, content = ''PNG''\<rparr> = 200 \<and>
   valid_stamp_time (now (example_env 181 None None 200)) \<and>
   valid_stamp_time (now example_env_later) \<and>
   strftime_stamp (now (example_env 181 None None 200)) = ''20261104150509'' \<and>
   strftime_stamp (now example_env_later) = ''20261104150510'' \<and>
   lst_filename example_request (now (example_env 181 None None 200)) =
     Inr ''lst_3.139_101.6869_20261104150509.png'' \<and>
   lst_filename example_request (now example_env_later) =
     Inr ''lst_3.139_101.6869_20261104150510.png'' \<and>
   response_field (get_lst (example_env 181 None None 200) example_request Map.empty) ''path'' =
     Some (JStr ''outputs/lst_3.139_101.6869_20261104150509.png'') \<and>
   snd (get_lst (example_env 181 None None 200) example_request Map.empty) =
     [''outputs/lst_3.139_101.6869_20261104150509.png'' \<mapsto> ''PNG''] \<and>
   now (example_env 181 None None 200) \<noteq> now example_env_later \<and>
   response_field (get_lst (example_env 181 None None 200) example_request Map.empty) ''path'' \<noteq>
     response_field
       (get_lst example_env_later example_request
          (snd (get_lst (example_env 181 None None 200) example_request Map.empty))) ''path'' \<and>
   response_field
     (get_lst example_env_later example_request
        (snd (get_lst (example_env 181 None None 200) example_request Map.empty))) ''path'' =
     Some (JStr ''outputs/lst_3.139_101.6869_20261104150510.png'') \<and>
   snd (get_lst example_env_later example_request
          (snd (get_lst (example_env 181 None None 200) example_request Map.empty))) =
     [''outputs/lst_3.139_101.6869_20261104150509.png'' \<mapsto> ''PNG'',
      ''outputs/lst_3.139_101.6869_20261104150510.png'' \<mapsto> ''PNG'']"
proof -
  let ?envA = "example_env 181 None None 200"
  let ?resp = "\<lparr>status_code = 200, content = ''PNG''\<rparr>"
  let ?lv = "[''LST_Day_1km'' \<mapsto> (None :: pyfloat option)]"
  let ?sv = "[''surface_solar_radiation_downwards_sum'' \<mapsto> (None :: pyfloat option)]"
  note t = map_filenames_collide[OF example_fetched(1) example_fetched(2) example_fetched(1)
      example_fetched(2) example_request_double,
      of example_location Map.empty ?envA example_start example_url ?lv ?sv ?resp
         example_env_later example_start example_url ?lv ?sv ?resp]
  have ra: "reaches_download ?envA example_request example_start example_url ?lv ?sv ?resp"
    using example_reaches[of 181 None None 200] sample_ok_None by simp
  have s: "status_code ?resp = 200" by simp
  have na: "lst_filename example_request (now ?envA) =
     Inr ''lst_3.139_101.6869_20261104150509.png''"
    by (simp add: example_filename example_stamps)
  have nb: "lst_filename example_request (now example_env_later) =
     Inr ''lst_3.139_101.6869_20261104150510.png''"
    by (simp add: example_filename example_stamps)
  from t ra s obtain filename where f: "lst_filename example_request (now ?envA) = Inr filename"
    and p: "response_field (get_lst ?envA example_request Map.empty) ''path'' =
               Some (JStr (path_join OUTPUT_DIR filename))"
    and w: "snd (get_lst ?envA example_request Map.empty) =
               [path_join OUTPUT_DIR filename \<mapsto> content ?resp]"
    by blast
  from f na have fn: "filename = ''lst_3.139_101.6869_20261104150509.png''" by simp
  have p': "response_field (get_lst ?envA example_request Map.empty) ''path'' =
     Some (JStr ''outputs/lst_3.139_101.6869_20261104150509.png'')"
    using p by (simp add: fn path_join_def OUTPUT_DIR_def)
  have w': "snd (get_lst ?envA example_request Map.empty) =
     [''outputs/lst_3.139_101.6869_20261104150509.png'' \<mapsto> ''PNG'']"
    using w by (simp add: fn path_join_def OUTPUT_DIR_def)
  have ne: "response_field (get_lst ?envA example_request Map.empty) ''path'' \<noteq>
     response_field
       (get_lst example_env_later example_request
          (snd (get_lst ?envA example_request Map.empty))) ''path''"
    using t ra example_later_reaches s example_stamps(3,4,5) by blast
  have m: "path_join SAVE_DIR (street_view_filename example_location) =
     ''static/maps/streetview_3_139_101_6869.jpg''"
    "path_join SAVE_DIR (hybrid_map_filename example_location) =
     ''static/maps/hybridmap_3_139_101_6869.jpg''"
    by (rule example_street_view_path, rule example_hybrid_map_path)
  have pb: "response_field
     (get_lst example_env_later example_request
        (snd (get_lst ?envA example_request Map.empty))) ''path'' =
     Some (JStr ''outputs/lst_3.139_101.6869_20261104150510.png'')"
    by (rule example_later_run(1))
  have wb: "snd (get_lst example_env_later example_request
          (snd (get_lst ?envA example_request Map.empty))) =
     [''outputs/lst_3.139_101.6869_20261104150509.png'' \<mapsto> ''PNG'',
      ''outputs/lst_3.139_101.6869_20261104150510.png'' \<mapsto> ''PNG'']"
    by (simp only: example_later_run(2) w')
  show ?thesis
    using t example_fetched example_request_double m ra example_later_reaches s
      example_stamps na nb p' w' ne pb wb
    by blast
qed

end
